theory Spec2Isabelle
  imports Main "HOL-Library.AList"
begin

section \<open>The issue cache\<close>

text \<open>
  The store client of \<^verbatim>\<open>src/unnamed/part_008\<close> (line 222, a minified bundle of the
  \<^verbatim>\<open>gh-store-client\<close> package) consists of two classes: the cache (class \<^verbatim>\<open>m\<close>) and the
  client (class \<^verbatim>\<open>d\<close>, exported as \<^verbatim>\<open>GitHubStoreClient\<close>). The methods \<^verbatim>\<open>get\<close>, \<^verbatim>\<open>set\<close>
  and \<^verbatim>\<open>remove\<close> of the cache are \<open>cache_get\<close>, \<open>cache_set\<close> and \<open>cache_remove\<close> here; the
  methods of the client keep their names, less the leading underscore of the private ones.
  Each definition comes with the source it translates.

  A JavaScript \<^verbatim>\<open>Date\<close> holds an integral number of milliseconds or is invalid.
  \<^verbatim>\<open>Date.now()\<close> always is a number.
\<close>

datatype date = Date int | InvalidDate

record cache_entry =
  entry_issueNumber :: nat
  lastAccessed :: int
  entry_createdAt :: date
  entry_updatedAt :: date

text \<open>
  \<^verbatim>\<open>this.cache\<close> is a \<^verbatim>\<open>Map\<close>: an association list with \<^const>\<open>map_of\<close> for \<^verbatim>\<open>get\<close>/\<^verbatim>\<open>has\<close>,
  \<^const>\<open>AList.update\<close> for \<^verbatim>\<open>set\<close>, \<^const>\<open>AList.delete\<close> for \<^verbatim>\<open>delete\<close> and
  \<^const>\<open>length\<close> for \<^verbatim>\<open>size\<close>. \<^verbatim>\<open>this.accessOrder\<close> is an array of IDs, most recent first.
\<close>

record IssueCache =
  cache_map :: "(string \<times> cache_entry) list"
  maxSize :: int
  ttl :: int
  accessOrder :: "string list"

record cache_options =
  opt_maxSize :: "int option"
  opt_ttl :: "int option"

text \<open>\<^verbatim>\<open>constructor(e={}){this.cache=new Map,this.maxSize=e.maxSize??1e3,this.ttl=e.ttl??1e3*60*60,this.accessOrder=[]}\<close>\<close>

definition cache_new :: "cache_options \<Rightarrow> IssueCache" where
  "cache_new e =
     \<lparr>cache_map = [],
      maxSize = (case opt_maxSize e of None \<Rightarrow> 1000 | Some n \<Rightarrow> n),
      ttl = (case opt_ttl e of None \<Rightarrow> 1000 * 60 * 60 | Some n \<Rightarrow> n),
      accessOrder = []\<rparr>"

text \<open>
  \<^verbatim>\<open>removeFromAccessOrder(e){let t=this.accessOrder.indexOf(e);t>-1&&this.accessOrder.splice(t,1)}\<close>:
  the first occurrence goes.
\<close>

definition removeFromAccessOrder :: "string \<Rightarrow> string list \<Rightarrow> string list" where
  "removeFromAccessOrder e order = remove1 e order"

text \<open>\<^verbatim>\<open>updateAccessOrder(e){this.removeFromAccessOrder(e),this.accessOrder.unshift(e)}\<close>\<close>

definition updateAccessOrder :: "string \<Rightarrow> string list \<Rightarrow> string list" where
  "updateAccessOrder e order = e # removeFromAccessOrder e order"

text \<open>
  \<^verbatim>\<open>get(e)\<close>, with the value \<open>now\<close> of \<^verbatim>\<open>Date.now()\<close> (read twice in one synchronous call,
  taken to be the same). The result \<open>None\<close> is \<^verbatim>\<open>undefined\<close>.
\<close>

definition cache_get :: "int \<Rightarrow> string \<Rightarrow> IssueCache \<Rightarrow> nat option \<times> IssueCache" where
  "cache_get now e c =
     (case map_of (cache_map c) e of
        None \<Rightarrow> (None, c)
      | Some t \<Rightarrow>
          if now - lastAccessed t > ttl c
          then (None, c\<lparr>cache_map := AList.delete e (cache_map c),
                         accessOrder := removeFromAccessOrder e (accessOrder c)\<rparr>)
          else (Some (entry_issueNumber t),
                c\<lparr>cache_map := AList.update e (t\<lparr>lastAccessed := now\<rparr>) (cache_map c),
                  accessOrder := updateAccessOrder e (accessOrder c)\<rparr>))"

text \<open>
  \<^verbatim>\<open>remove(e){this.cache.delete(e),this.removeFromAccessOrder(e)}\<close>
\<close>

definition cache_remove :: "string \<Rightarrow> IssueCache \<Rightarrow> IssueCache" where
  "cache_remove e c =
     c\<lparr>cache_map := AList.delete e (cache_map c),
       accessOrder := removeFromAccessOrder e (accessOrder c)\<rparr>"

text \<open>
  The eviction step of \<^verbatim>\<open>set\<close>:
  \<^verbatim>\<open>let s=this.accessOrder[this.accessOrder.length-1];s&&(this.cache.delete(s),this.removeFromAccessOrder(s))\<close>.
  Reading past the end of an empty array gives \<^verbatim>\<open>undefined\<close>; the guard \<^verbatim>\<open>s&&\<close> is a
  truthiness test, and the empty string is falsy as well.
\<close>

definition evict_tail :: "IssueCache \<Rightarrow> IssueCache" where
  "evict_tail c =
     (if accessOrder c = [] then c
      else let s = last (accessOrder c)
           in if s = [] then c else cache_remove s c)"

text \<open>
  \<^verbatim>\<open>set(e,t,r)\<close>: \<^verbatim>\<open>if(this.cache.size>=this.maxSize&&!this.cache.has(e)){...}\<close>, then
  \<^verbatim>\<open>this.cache.set(e,{issueNumber:t,lastAccessed:Date.now(),createdAt:r.createdAt,updatedAt:r.updatedAt}),this.updateAccessOrder(e)\<close>.
\<close>

definition cache_set :: "int \<Rightarrow> string \<Rightarrow> nat \<Rightarrow> date \<times> date \<Rightarrow> IssueCache \<Rightarrow> IssueCache" where
  "cache_set now e t r c =
     (let c1 = (if int (length (cache_map c)) \<ge> maxSize c \<and> map_of (cache_map c) e = None
                then evict_tail c else c)
      in c1\<lparr>cache_map :=
               AList.update e
                 \<lparr>entry_issueNumber = t, lastAccessed = now,
                  entry_createdAt = fst r, entry_updatedAt = snd r\<rparr>
                 (cache_map c1),
             accessOrder := updateAccessOrder e (accessOrder c1)\<rparr>)"

text \<open>Insertion of a list of IDs, one \<^verbatim>\<open>set\<close> after the other, at issue numbers 1, 2, ...\<close>

fun cache_set_all :: "int \<Rightarrow> string list \<Rightarrow> IssueCache \<Rightarrow> IssueCache" where
  "cache_set_all now [] c = c"
| "cache_set_all now (e # es) c =
     cache_set_all now es (cache_set now e (Suc (length (cache_map c))) (InvalidDate, InvalidDate) c)"

section \<open>JSON values and text\<close>

text \<open>
  The type \<^verbatim>\<open>Json\<close> of the package: numbers are taken to be integers, an object is the
  list of its own keys with their values.
\<close>

datatype json =
    JNull
  | JBool bool
  | JNum int
  | JStr string
  | JArr "json list"
  | JObj "(string \<times> json) list"

text \<open>
  \<^verbatim>\<open>JSON.stringify\<close> and \<^verbatim>\<open>JSON.parse\<close> belong to the platform. The text of an issue
  body or of a comment is represented by what \<^verbatim>\<open>JSON.parse\<close> makes of it: \<open>JsonText v\<close> is
  a text that parses to \<open>v\<close> (so \<^verbatim>\<open>JSON.stringify(v,null,2)\<close> is \<open>JsonText v\<close>, never the
  empty string), and \<open>OtherText s\<close> is a text \<open>s\<close> that \<^verbatim>\<open>JSON.parse\<close> rejects with a
  \<^verbatim>\<open>SyntaxError\<close>, the empty string among them.
\<close>

datatype jstext = JsonText json | OtherText string

datatype error =
    Error string
  | GitHubAPIError nat
  | SyntaxError
  | TypeError
  | RangeError

definition JSON_stringify :: "json \<Rightarrow> jstext" where
  "JSON_stringify v = JsonText v"

text \<open>
  \<^verbatim>\<open>JSON.parse(x)\<close> of a string or of \<^verbatim>\<open>null\<close> (\<open>None\<close>): \<^verbatim>\<open>null\<close> is converted to the
  string \<^verbatim>\<open>"null"\<close>, which parses.
\<close>

fun JSON_parse :: "jstext option \<Rightarrow> error + json" where
  "JSON_parse None = Inr JNull"
| "JSON_parse (Some (JsonText v)) = Inr v"
| "JSON_parse (Some (OtherText s)) = Inl SyntaxError"

text \<open>Truthiness of a JSON value, and of a string or \<^verbatim>\<open>null\<close>.\<close>

fun truthy :: "json \<Rightarrow> bool" where
  "truthy JNull = False"
| "truthy (JBool b) = b"
| "truthy (JNum n) = (n \<noteq> 0)"
| "truthy (JStr s) = (s \<noteq> [])"
| "truthy (JArr xs) = True"
| "truthy (JObj kvs) = True"

fun truthy_text :: "jstext option \<Rightarrow> bool" where
  "truthy_text None = False"
| "truthy_text (Some (JsonText v)) = True"
| "truthy_text (Some (OtherText s)) = (s \<noteq> [])"

text \<open>\<^verbatim>\<open>a > b\<close> on two \<^verbatim>\<open>Date\<close> objects compares their time values; \<^verbatim>\<open>NaN\<close> compares false.\<close>

fun date_gt :: "date \<Rightarrow> date \<Rightarrow> bool" where
  "date_gt (Date a) (Date b) = (a > b)"
| "date_gt _ _ = False"

text \<open>\<^verbatim>\<open>xs.join(",")\<close>\<close>

fun join_comma :: "string list \<Rightarrow> string" where
  "join_comma [] = []"
| "join_comma [x] = x"
| "join_comma (x # y # ys) = x @ '','' @ join_comma (y # ys)"

section \<open>The issue tracker as the client sees it\<close>

text \<open>
  The fields of an issue and of a comment that the client reads, and the state of an issue,
  which it writes. A label object is represented by its \<^verbatim>\<open>name\<close>. A \<^verbatim>\<open>null\<close> body is
  \<open>None\<close>.
\<close>

record issue =
  number :: nat
  title :: string
  body :: "jstext option"
  labels :: "string list"
  state :: string
  created_at :: string
  updated_at :: string

record comment =
  comment_id :: nat
  comment_body :: jstext
  comment_created_at :: string

record issue_query =
  q_labels :: string
  q_state :: string
  q_since :: "string option"

record new_issue =
  n_title :: string
  n_body :: jstext
  n_labels :: "string list"

text \<open>
  The platform the client runs on: the clock, the \<^verbatim>\<open>Date\<close> conversions and, for each
  endpoint that the client calls through the global \<^verbatim>\<open>fetch\<close>, a function that takes the
  \<^verbatim>\<open>Authorization\<close> header (if any), the request and the state \<open>'w\<close> of the world, and
  returns the decoded response or the status of a response that is not \<^verbatim>\<open>ok\<close>, with the
  new state of the world. Responses have the shape that the REST interface documents.
\<close>

record 'w platform =
  Date_now :: "'w \<Rightarrow> int"
  toISOString :: "int \<Rightarrow> string"
  Date_parse :: "string \<Rightarrow> date"
  GET_issue :: "string option \<Rightarrow> nat \<Rightarrow> 'w \<Rightarrow> (nat + issue) \<times> 'w"
  GET_issues :: "string option \<Rightarrow> issue_query \<Rightarrow> 'w \<Rightarrow> (nat + issue list) \<times> 'w"
  POST_issue :: "string option \<Rightarrow> new_issue \<Rightarrow> 'w \<Rightarrow> (nat + issue) \<times> 'w"
  POST_comment :: "string option \<Rightarrow> nat \<Rightarrow> jstext \<Rightarrow> 'w \<Rightarrow> (nat + comment) \<times> 'w"
  POST_reaction :: "string option \<Rightarrow> nat \<Rightarrow> string \<Rightarrow> 'w \<Rightarrow> (nat + unit) \<times> 'w"
  PATCH_issue :: "string option \<Rightarrow> nat \<Rightarrow> string \<Rightarrow> 'w \<Rightarrow> (nat + unit) \<times> 'w"
  GET_comments :: "string option \<Rightarrow> nat \<Rightarrow> 'w \<Rightarrow> (nat + comment list) \<times> 'w"

section \<open>The store client\<close>

text \<open>The token is a string, \<^verbatim>\<open>null\<close> or \<^verbatim>\<open>undefined\<close>.\<close>

datatype token = TokenNull | TokenUndefined | TokenString string

record config =
  baseLabel :: string
  uidPrefix :: string
  reaction_processed :: string
  reaction_initialState :: string

record client_options =
  opt_baseLabel :: "string option"
  opt_uidPrefix :: "string option"
  opt_processed :: "string option"
  opt_initialState :: "string option"
  opt_cache :: "cache_options option"

record client =
  token :: token
  repo :: string
  config :: config
  cache :: IssueCache

record meta =
  objectId :: string
  label :: string
  issueNumber :: nat
  createdAt :: date
  updatedAt :: date
  version :: nat

record stored_object =
  meta :: meta
  data :: json

record history_entry =
  entry_timestamp :: string
  entry_type :: json
  entry_data :: "json option"
  commentId :: nat

text \<open>
  \<^verbatim>\<open>constructor(e,t,r={}){if(this.token=e,this.repo=t,!this.repo)throw new Error("Repository is required");
  this.config={baseLabel:r.baseLabel??"stored-object",uidPrefix:r.uidPrefix??"UID:",reactions:{processed:
  r.reactions?.processed??"+1",initialState:r.reactions?.initialState??"rocket"}},this.cache=new m(r.cache)}\<close>
\<close>

definition GitHubStoreClient :: "token \<Rightarrow> string \<Rightarrow> client_options \<Rightarrow> error + client" where
  "GitHubStoreClient e t r =
     (if t = [] then Inl (Error ''Repository is required'')
      else Inr
        \<lparr>token = e, repo = t,
         config =
           \<lparr>baseLabel = (case opt_baseLabel r of None \<Rightarrow> ''stored-object'' | Some l \<Rightarrow> l),
            uidPrefix = (case opt_uidPrefix r of None \<Rightarrow> ''UID:'' | Some p \<Rightarrow> p),
            reaction_processed = (case opt_processed r of None \<Rightarrow> ''+1'' | Some x \<Rightarrow> x),
            reaction_initialState = (case opt_initialState r of None \<Rightarrow> ''rocket'' | Some x \<Rightarrow> x)\<rparr>,
         cache =
           cache_new (case opt_cache r of
                        None \<Rightarrow> \<lparr>opt_maxSize = None, opt_ttl = None\<rparr>
                      | Some opts \<Rightarrow> opts)\<rparr>)"

definition default_options :: client_options where
  "default_options =
     \<lparr>opt_baseLabel = None, opt_uidPrefix = None, opt_processed = None,
      opt_initialState = None, opt_cache = None\<rparr>"

text \<open>\<^verbatim>\<open>isPublic(){return this.token===null}\<close>\<close>

definition isPublic :: "client \<Rightarrow> bool" where
  "isPublic c = (token c = TokenNull)"

text \<open>The test \<^verbatim>\<open>this.token\<close> of \<^verbatim>\<open>if(!this.token)\<close> and of \<^verbatim>\<open>this.token&&(...)\<close>.\<close>

fun truthy_token :: "token \<Rightarrow> bool" where
  "truthy_token TokenNull = False"
| "truthy_token TokenUndefined = False"
| "truthy_token (TokenString s) = (s \<noteq> [])"

text \<open>\<^verbatim>\<open>this.token&&(s.Authorization=`token ${this.token}`)\<close>\<close>

fun authorization :: "token \<Rightarrow> string option" where
  "authorization (TokenString s) = (if s \<noteq> [] then Some (''token '' @ s) else None)"
| "authorization _ = None"

text \<open>
  An asynchronous method is a function from the client and the world to a result, which is
  an error (a rejected promise) or a value, and the client and the world afterwards.
\<close>

type_synonym ('a, 'w) prog = "client \<times> 'w \<Rightarrow> (error + 'a) \<times> client \<times> 'w"

definition resolve :: "'a \<Rightarrow> ('a, 'w) prog" where
  "resolve v s = (Inr v, s)"

definition throw :: "error \<Rightarrow> ('a, 'w) prog" where
  "throw err s = (Inl err, s)"

definition await :: "('a, 'w) prog \<Rightarrow> ('a \<Rightarrow> ('b, 'w) prog) \<Rightarrow> ('b, 'w) prog" where
  "await m f s = (case m s of (Inl err, s') \<Rightarrow> (Inl err, s') | (Inr v, s') \<Rightarrow> f v s')"

text \<open>
  \<^verbatim>\<open>fetchFromGitHub(e,t)\<close>: the request goes out with the \<^verbatim>\<open>Authorization\<close> header when the
  token is truthy; \<^verbatim>\<open>if(!i.ok)throw new Error(`GitHub API error: ${i.status}`);return i.json()\<close>.
\<close>

definition fetchFromGitHub ::
    "(string option \<Rightarrow> 'w \<Rightarrow> (nat + 'a) \<times> 'w) \<Rightarrow> ('a, 'w) prog" where
  "fetchFromGitHub endpoint s =
     (case endpoint (authorization (token (fst s))) (snd s) of
        (Inl status, w') \<Rightarrow> (Inl (GitHubAPIError status), fst s, w')
      | (Inr v, w') \<Rightarrow> (Inr v, fst s, w'))"

text \<open>
  \<^verbatim>\<open>createCommentPayload(e,t,r){let s={_data:e,_meta:{client_version:y,timestamp:new Date().toISOString(),
  update_mode:"append",issue_number:t}};return r&&(s.type=r),s}\<close> with \<^verbatim>\<open>y="0.11.1"\<close>; the argument
  \<open>r\<close> is a string or is left out.
\<close>

definition createCommentPayload :: "'w platform \<Rightarrow> 'w \<Rightarrow> json \<Rightarrow> nat \<Rightarrow> string option \<Rightarrow> json" where
  "createCommentPayload P w e t r =
     JObj ([(''_data'', e),
            (''_meta'', JObj [(''client_version'', JStr ''0.11.1''),
                             (''timestamp'', JStr (toISOString P (Date_now P w))),
                             (''update_mode'', JStr ''append''),
                             (''issue_number'', JNum (int t))])]
           @ (case r of None \<Rightarrow> [] | Some x \<Rightarrow> if x \<noteq> [] then [(''type'', JStr x)] else []))"

text \<open>
  \<^verbatim>\<open>_verifyIssueLabels(e,t){let r=new Set([this.config.baseLabel,`${this.config.uidPrefix}${t}`]);
  return e.labels.some(s=>r.has(s.name))}\<close>
\<close>

definition verifyIssueLabels :: "config \<Rightarrow> issue \<Rightarrow> string \<Rightarrow> bool" where
  "verifyIssueLabels cfg e t =
     list_ex (\<lambda>s. s = baseLabel cfg \<or> s = uidPrefix cfg @ t) (labels e)"

text \<open>\<^verbatim>\<open>async _getVersion(e){return (await this.fetchFromGitHub(`/issues/${e}/comments`)).length+1}\<close>\<close>

definition getVersion :: "'w platform \<Rightarrow> nat \<Rightarrow> (nat, 'w) prog" where
  "getVersion P e =
     await (fetchFromGitHub (\<lambda>a. GET_comments P a e)) (\<lambda>cs. resolve (length cs + 1))"

text \<open>
  \<^verbatim>\<open>_getObjectIdFromLabels(e){for(let t of e.labels)if(t.name!==this.config.baseLabel&&
  t.name.startsWith(this.config.uidPrefix))return t.name.slice(this.config.uidPrefix.length);
  throw new Error(`No UID label found with prefix ${this.config.uidPrefix}`)}\<close>
\<close>

definition getObjectIdFromLabels :: "config \<Rightarrow> issue \<Rightarrow> error + string" where
  "getObjectIdFromLabels cfg e =
     (case find (\<lambda>t. t \<noteq> baseLabel cfg \<and> take (length (uidPrefix cfg)) t = uidPrefix cfg)
             (labels e) of
        Some t \<Rightarrow> Inr (drop (length (uidPrefix cfg)) t)
      | None \<Rightarrow> Inl (Error (''No UID label found with prefix '' @ uidPrefix cfg)))"

subsection \<open>getObject\<close>

text \<open>
  The first block of \<^verbatim>\<open>getObject(e)\<close>:
  \<^verbatim>\<open>let t=this.cache.get(e),r;if(t)try{r=await this.fetchFromGitHub(`/issues/${t}`),
  this._verifyIssueLabels(r,e)||(this.cache.remove(e),r=void 0)}catch{this.cache.remove(e)}\<close>.
  The test \<^verbatim>\<open>if(t)\<close> is false for \<^verbatim>\<open>undefined\<close> and for the number 0. The result is \<open>r\<close>.
\<close>

definition cached_issue :: "'w platform \<Rightarrow> string \<Rightarrow> (issue option, 'w) prog" where
  "cached_issue P e s =
     (case cache_get (Date_now P (snd s)) e (cache (fst s)) of
        (t, ch) \<Rightarrow>
          let c1 = (fst s)\<lparr>cache := ch\<rparr> in
          (case t of
             None \<Rightarrow> (Inr None, c1, snd s)
           | Some n \<Rightarrow>
               if n = 0 then (Inr None, c1, snd s)
               else
                 (case fetchFromGitHub (\<lambda>a. GET_issue P a n) (c1, snd s) of
                    (Inl err, c2, w2) \<Rightarrow>
                      (Inr None, c2\<lparr>cache := cache_remove e (cache c2)\<rparr>, w2)
                  | (Inr r, c2, w2) \<Rightarrow>
                      if verifyIssueLabels (config c2) r e then (Inr (Some r), c2, w2)
                      else (Inr None, c2\<lparr>cache := cache_remove e (cache c2)\<rparr>, w2))))"

text \<open>
  The second block:
  \<^verbatim>\<open>if(!r){let c=await this.fetchFromGitHub("/issues",{method:"GET",params:{labels:["gh-store",
  this.config.baseLabel,`${this.config.uidPrefix}${e}`].join(","),state:"closed"}});
  if(!c||c.length===0)throw new Error(`No object found with ID: ${e}`);r=c[0]}\<close>
\<close>

definition query_issue :: "'w platform \<Rightarrow> string \<Rightarrow> (issue, 'w) prog" where
  "query_issue P e s =
     await
       (fetchFromGitHub (\<lambda>a. GET_issues P a
          \<lparr>q_labels = join_comma [''gh-store'', baseLabel (config (fst s)),
                                  uidPrefix (config (fst s)) @ e],
           q_state = ''closed'', q_since = None\<rparr>))
       (\<lambda>c. case c of
               [] \<Rightarrow> throw (Error (''No object found with ID: '' @ e))
             | r # _ \<Rightarrow> resolve r)
       s"

text \<open>
  The rest:
  \<^verbatim>\<open>if(!r?.body)throw new Error(`Invalid issue data received for ID: ${e}`);let s=JSON.parse(r.body),
  i=new Date(r.created_at),a=new Date(r.updated_at);return this.cache.set(e,r.number,{createdAt:i,
  updatedAt:a}),{meta:{objectId:e,label:`${this.config.uidPrefix}${e}`,issueNumber:r.number,createdAt:i,
  updatedAt:a,version:await this._getVersion(r.number)},data:s}\<close>
\<close>

definition assemble :: "'w platform \<Rightarrow> string \<Rightarrow> issue \<Rightarrow> (stored_object, 'w) prog" where
  "assemble P e r s =
     (if \<not> truthy_text (body r)
      then throw (Error (''Invalid issue data received for ID: '' @ e)) s
      else
        (case JSON_parse (body r) of
           Inl err \<Rightarrow> throw err s
         | Inr d \<Rightarrow>
             let i = Date_parse P (created_at r);
                 a = Date_parse P (updated_at r);
                 c1 = (fst s)\<lparr>cache := cache_set (Date_now P (snd s)) e (number r) (i, a)
                                           (cache (fst s))\<rparr>
             in await (getVersion P (number r))
                  (\<lambda>v. resolve
                     \<lparr>meta = \<lparr>objectId = e, label = uidPrefix (config c1) @ e,
                              issueNumber = number r, createdAt = i, updatedAt = a,
                              version = v\<rparr>,
                      data = d\<rparr>)
                  (c1, snd s)))"

definition getObject :: "'w platform \<Rightarrow> string \<Rightarrow> (stored_object, 'w) prog" where
  "getObject P e =
     await (cached_issue P e)
       (\<lambda>r0. await (case r0 of Some r \<Rightarrow> resolve r | None \<Rightarrow> query_issue P e)
                (\<lambda>r. assemble P e r))"

subsection \<open>createObject and updateObject\<close>

text \<open>
  \<^verbatim>\<open>async createObject(e,t,r=[]){if(!this.token)throw new Error("Authentication required for creating
  objects");let s=`${this.config.uidPrefix}${e}`,i=["gh-store",this.config.baseLabel,s,...r],
  a=await this.fetchFromGitHub("/issues",{method:"POST",body:JSON.stringify({title:`Stored Object: ${e}`,
  body:JSON.stringify(t,null,2),labels:i})});this.cache.set(e,a.number,{createdAt:new Date(a.created_at),
  updatedAt:new Date(a.updated_at)});let n=this.createCommentPayload(t,a.number,"initial_state"),
  c=await this.fetchFromGitHub(`/issues/${a.number}/comments`,{method:"POST",body:JSON.stringify({body:
  JSON.stringify(n,null,2)})});return await this.fetchFromGitHub(`/issues/comments/${c.id}/reactions`,
  {method:"POST",body:JSON.stringify({content:this.config.reactions.processed})}),await
  this.fetchFromGitHub(`/issues/comments/${c.id}/reactions`,{method:"POST",body:JSON.stringify({content:
  this.config.reactions.initialState})}),await this.fetchFromGitHub(`/issues/${a.number}`,{method:"PATCH",
  body:JSON.stringify({state:"closed"})}),{meta:{objectId:e,label:s,issueNumber:a.number,createdAt:
  new Date(a.created_at),updatedAt:new Date(a.updated_at),version:1},data:t}}\<close>
\<close>

definition createObject ::
    "'w platform \<Rightarrow> string \<Rightarrow> json \<Rightarrow> string list \<Rightarrow> (stored_object, 'w) prog" where
  "createObject P e t r s0 =
     (if \<not> truthy_token (token (fst s0))
      then throw (Error ''Authentication required for creating objects'') s0
      else
        let s = uidPrefix (config (fst s0)) @ e;
            i = [''gh-store'', baseLabel (config (fst s0)), s] @ r
        in await
             (fetchFromGitHub (\<lambda>a. POST_issue P a
                \<lparr>n_title = ''Stored Object: '' @ e, n_body = JSON_stringify t, n_labels = i\<rparr>))
             (\<lambda>a s1.
                let c1 = (fst s1)\<lparr>cache :=
                           cache_set (Date_now P (snd s1)) e (number a)
                             (Date_parse P (created_at a), Date_parse P (updated_at a))
                             (cache (fst s1))\<rparr>;
                    n = createCommentPayload P (snd s1) t (number a) (Some ''initial_state'')
                in await
                     (fetchFromGitHub (\<lambda>h. POST_comment P h (number a) (JSON_stringify n)))
                     (\<lambda>c. await
                        (fetchFromGitHub (\<lambda>h. POST_reaction P h (comment_id c)
                           (reaction_processed (config c1))))
                        (\<lambda>_. await
                           (fetchFromGitHub (\<lambda>h. POST_reaction P h (comment_id c)
                              (reaction_initialState (config c1))))
                           (\<lambda>_. await
                              (fetchFromGitHub (\<lambda>h. PATCH_issue P h (number a) ''closed''))
                              (\<lambda>_. resolve
                                 \<lparr>meta = \<lparr>objectId = e, label = s, issueNumber = number a,
                                          createdAt = Date_parse P (created_at a),
                                          updatedAt = Date_parse P (updated_at a),
                                          version = 1\<rparr>,
                                  data = t\<rparr>))))
                     (c1, snd s1))
             s0)"

text \<open>
  \<^verbatim>\<open>async updateObject(e,t){if(!this.token)throw new Error("Authentication required for updating
  objects");let r=await this.fetchFromGitHub("/issues",{method:"GET",params:{labels:[this.config.baseLabel,
  `${this.config.uidPrefix}${e}`].join(","),state:"all"}});if(!r||r.length===0)throw new Error(`No object
  found with ID: ${e}`);let s=r[0],i=this.createCommentPayload(t,s.number);return await
  this.fetchFromGitHub(`/issues/${s.number}/comments`,{method:"POST",body:JSON.stringify({body:
  JSON.stringify(i,null,2)})}),await this.fetchFromGitHub(`/issues/${s.number}`,{method:"PATCH",
  body:JSON.stringify({state:"open"})}),this.getObject(e)}\<close>
\<close>

definition updateObject :: "'w platform \<Rightarrow> string \<Rightarrow> json \<Rightarrow> (stored_object, 'w) prog" where
  "updateObject P e t s0 =
     (if \<not> truthy_token (token (fst s0))
      then throw (Error ''Authentication required for updating objects'') s0
      else
        await
          (fetchFromGitHub (\<lambda>a. GET_issues P a
             \<lparr>q_labels = join_comma [baseLabel (config (fst s0)), uidPrefix (config (fst s0)) @ e],
              q_state = ''all'', q_since = None\<rparr>))
          (\<lambda>r. case r of
                  [] \<Rightarrow> throw (Error (''No object found with ID: '' @ e))
                | s # _ \<Rightarrow>
                    (\<lambda>s1. let i = createCommentPayload P (snd s1) t (number s) None
                           in await
                                (fetchFromGitHub (\<lambda>h. POST_comment P h (number s) (JSON_stringify i)))
                                (\<lambda>_. await
                                   (fetchFromGitHub (\<lambda>h. PATCH_issue P h (number s) ''open''))
                                   (\<lambda>_. getObject P e))
                                s1))
          s0)"

subsection \<open>listAll and listUpdatedSince\<close>

text \<open>
  The body of the \<^verbatim>\<open>try\<close> in the loop of \<^verbatim>\<open>listAll\<close>:
  \<^verbatim>\<open>let s=this._getObjectIdFromLabels(r),i=JSON.parse(r.body),a={objectId:s,label:s,issueNumber:r.number,
  createdAt:new Date(r.created_at),updatedAt:new Date(r.updated_at),version:await
  this._getVersion(r.number)};t[s]={meta:a,data:i}\<close>. It gives the key and the object to store.
\<close>

definition listAll_entry :: "'w platform \<Rightarrow> issue \<Rightarrow> (string \<times> stored_object, 'w) prog" where
  "listAll_entry P r s =
     (case getObjectIdFromLabels (config (fst s)) r of
        Inl err \<Rightarrow> throw err s
      | Inr k \<Rightarrow>
          (case JSON_parse (body r) of
             Inl err \<Rightarrow> throw err s
           | Inr i \<Rightarrow>
               await (getVersion P (number r))
                 (\<lambda>v. resolve
                    (k, \<lparr>meta = \<lparr>objectId = k, label = k, issueNumber = number r,
                                 createdAt = Date_parse P (created_at r),
                                 updatedAt = Date_parse P (updated_at r),
                                 version = v\<rparr>,
                         data = i\<rparr>))
                 s))"

text \<open>
  \<^verbatim>\<open>for(let r of e)if(!r.labels.some(s=>s.name==="archived"))try{...}catch{continue}\<close>; the result
  object \<open>t\<close> is a map from keys to stored objects.
\<close>

fun listAll_loop ::
    "'w platform \<Rightarrow> issue list \<Rightarrow> (string \<rightharpoonup> stored_object) \<Rightarrow> client \<times> 'w \<Rightarrow>
       (string \<rightharpoonup> stored_object) \<times> client \<times> 'w" where
  "listAll_loop P [] t s = (t, s)"
| "listAll_loop P (r # rs) t s =
     (if list_ex (\<lambda>l. l = ''archived'') (labels r) then listAll_loop P rs t s
      else
        (case listAll_entry P r s of
           (Inl err, s') \<Rightarrow> listAll_loop P rs t s'
         | (Inr (k, obj), s') \<Rightarrow> listAll_loop P rs (t(k \<mapsto> obj)) s'))"

text \<open>
  \<^verbatim>\<open>async listAll(){let e=await this.fetchFromGitHub("/issues",{method:"GET",params:{labels:
  this.config.baseLabel,state:"closed"}}),t={};for(...)...;return t}\<close>
\<close>

definition listAll :: "'w platform \<Rightarrow> (string \<rightharpoonup> stored_object, 'w) prog" where
  "listAll P s0 =
     await
       (fetchFromGitHub (\<lambda>a. GET_issues P a
          \<lparr>q_labels = baseLabel (config (fst s0)), q_state = ''closed'', q_since = None\<rparr>))
       (\<lambda>e s. case listAll_loop P e Map.empty s of (t, s') \<Rightarrow> (Inr t, s'))
       s0"

text \<open>
  The body of the \<^verbatim>\<open>try\<close> in the loop of \<^verbatim>\<open>listUpdatedSince(e)\<close>:
  \<^verbatim>\<open>let i=this._getObjectIdFromLabels(s),a=JSON.parse(s.body),n=new Date(s.updated_at);if(n>e){let c={
  objectId:i,label:i,issueNumber:s.number,createdAt:new Date(s.created_at),updatedAt:n,version:await
  this._getVersion(s.number)};r[i]={meta:c,data:a}}\<close>. It gives \<open>None\<close> when the test fails.
\<close>

definition listUpdatedSince_entry ::
    "'w platform \<Rightarrow> date \<Rightarrow> issue \<Rightarrow> ((string \<times> stored_object) option, 'w) prog" where
  "listUpdatedSince_entry P e r s =
     (case getObjectIdFromLabels (config (fst s)) r of
        Inl err \<Rightarrow> throw err s
      | Inr k \<Rightarrow>
          (case JSON_parse (body r) of
             Inl err \<Rightarrow> throw err s
           | Inr a \<Rightarrow>
               let n = Date_parse P (updated_at r)
               in if date_gt n e
                  then await (getVersion P (number r))
                         (\<lambda>v. resolve
                            (Some (k, \<lparr>meta = \<lparr>objectId = k, label = k, issueNumber = number r,
                                               createdAt = Date_parse P (created_at r),
                                               updatedAt = n, version = v\<rparr>,
                                       data = a\<rparr>)))
                         s
                  else resolve None s))"

fun listUpdatedSince_loop ::
    "'w platform \<Rightarrow> date \<Rightarrow> issue list \<Rightarrow> (string \<rightharpoonup> stored_object) \<Rightarrow> client \<times> 'w \<Rightarrow>
       (string \<rightharpoonup> stored_object) \<times> client \<times> 'w" where
  "listUpdatedSince_loop P e [] t s = (t, s)"
| "listUpdatedSince_loop P e (r # rs) t s =
     (if list_ex (\<lambda>l. l = ''archived'') (labels r) then listUpdatedSince_loop P e rs t s
      else
        (case listUpdatedSince_entry P e r s of
           (Inl err, s') \<Rightarrow> listUpdatedSince_loop P e rs t s'
         | (Inr None, s') \<Rightarrow> listUpdatedSince_loop P e rs t s'
         | (Inr (Some (k, obj)), s') \<Rightarrow> listUpdatedSince_loop P e rs (t(k \<mapsto> obj)) s'))"

text \<open>
  \<^verbatim>\<open>async listUpdatedSince(e){let t=await this.fetchFromGitHub("/issues",{method:"GET",params:{labels:
  this.config.baseLabel,state:"closed",since:e.toISOString()}}),r={};for(...)...;return r}\<close>;
  \<^verbatim>\<open>toISOString\<close> of an invalid date throws a \<^verbatim>\<open>RangeError\<close>.
\<close>

definition listUpdatedSince :: "'w platform \<Rightarrow> date \<Rightarrow> (string \<rightharpoonup> stored_object, 'w) prog" where
  "listUpdatedSince P e s0 =
     (case e of
        InvalidDate \<Rightarrow> throw RangeError s0
      | Date ms \<Rightarrow>
          await
            (fetchFromGitHub (\<lambda>a. GET_issues P a
               \<lparr>q_labels = baseLabel (config (fst s0)), q_state = ''closed'',
                q_since = Some (toISOString P ms)\<rparr>))
            (\<lambda>t s. case listUpdatedSince_loop P e t Map.empty s of (r, s') \<Rightarrow> (Inr r, s'))
            s0)"

subsection \<open>getObjectHistory\<close>

text \<open>
  The body of the \<^verbatim>\<open>try\<close> in the loop of \<^verbatim>\<open>getObjectHistory\<close>, for the comment \<open>a\<close>:
  \<^verbatim>\<open>let n=JSON.parse(a.body),c="update",u,p={...};typeof n=="object"?"_data"in n?(c=n.type||"update",
  u=n._data,p=n._meta||p):"type"in n&&n.type==="initial_state"?(c="initial_state",u=n.data):u=n:u=n,
  i.push({timestamp:a.created_at,type:c,data:u,commentId:a.id})\<close>.
  \<^verbatim>\<open>typeof n\<close> is \<^verbatim>\<open>"object"\<close> for an object, an array and \<^verbatim>\<open>null\<close>; the operator \<^verbatim>\<open>in\<close>
  throws a \<^verbatim>\<open>TypeError\<close> when its right operand is \<^verbatim>\<open>null\<close>; an array has neither key.
  The metadata \<open>p\<close> is not part of the entry pushed. A missing \<^verbatim>\<open>data\<close> is \<^verbatim>\<open>undefined\<close>
  (\<open>None\<close>).
\<close>

definition history_entry_of :: "comment \<Rightarrow> error + history_entry" where
  "history_entry_of a =
     (case JSON_parse (Some (comment_body a)) of
        Inl err \<Rightarrow> Inl err
      | Inr n \<Rightarrow>
          (let entry = (\<lambda>c u. Inr \<lparr>entry_timestamp = comment_created_at a, entry_type = c,
                                   entry_data = u, commentId = comment_id a\<rparr>)
           in case n of
                JNull \<Rightarrow> Inl TypeError
              | JObj kvs \<Rightarrow>
                  (case map_of kvs ''_data'' of
                     Some d \<Rightarrow>
                       entry (case map_of kvs ''type'' of
                                None \<Rightarrow> JStr ''update''
                              | Some ty \<Rightarrow> if truthy ty then ty else JStr ''update'')
                         (Some d)
                   | None \<Rightarrow>
                       if map_of kvs ''type'' = Some (JStr ''initial_state'')
                       then entry (JStr ''initial_state'') (map_of kvs ''data'')
                       else entry (JStr ''update'') (Some n))
              | _ \<Rightarrow> entry (JStr ''update'') (Some n)))"

text \<open>\<^verbatim>\<open>for(let a of s)try{...}catch{continue}\<close>: the entries in the order of the comments.\<close>

fun history_loop :: "comment list \<Rightarrow> history_entry list" where
  "history_loop [] = []"
| "history_loop (a # as) =
     (case history_entry_of a of
        Inl err \<Rightarrow> history_loop as
      | Inr h \<Rightarrow> h # history_loop as)"

text \<open>
  \<^verbatim>\<open>async getObjectHistory(e){let t=await this.fetchFromGitHub("/issues",{method:"GET",params:{labels:
  [this.config.baseLabel,`${this.config.uidPrefix}${e}`].join(","),state:"all"}});if(!t||t.length===0)
  throw new Error(`No object found with ID: ${e}`);let r=t[0],s=await
  this.fetchFromGitHub(`/issues/${r.number}/comments`),i=[];for(...)...;return i}\<close>
\<close>

definition getObjectHistory :: "'w platform \<Rightarrow> string \<Rightarrow> (history_entry list, 'w) prog" where
  "getObjectHistory P e s0 =
     await
       (fetchFromGitHub (\<lambda>a. GET_issues P a
          \<lparr>q_labels = join_comma [baseLabel (config (fst s0)), uidPrefix (config (fst s0)) @ e],
           q_state = ''all'', q_since = None\<rparr>))
       (\<lambda>t. case t of
               [] \<Rightarrow> throw (Error (''No object found with ID: '' @ e))
             | r # _ \<Rightarrow>
                 await (fetchFromGitHub (\<lambda>a. GET_comments P a (number r)))
                   (\<lambda>s. resolve (history_loop s)))
       s0"

section \<open>A reference issue tracker\<close>

text \<open>
  The issue tracker is not part of the repository. Properties of sequences of calls are
  stated against this reference tracker: a world holds the clock, the issues (newest first,
  the order in which the tracker lists them), the comments with the number of their issue
  (oldest first) and the reactions. An issue gets the next free number, a comment the next
  free identifier. The \<^verbatim>\<open>labels\<close> parameter of a query is a list of names separated by
  commas; an issue matches when it carries every one of them. Reads are consistent with
  earlier writes, nothing but the client's requests changes the issues, and the
  \<^verbatim>\<open>Authorization\<close> header is not inspected. This tracker answers a list request with the
  whole list; the tracker that answers with one page follows it.
\<close>

record gh_world =
  clock :: int
  issues :: "issue list"
  comments :: "(nat \<times> comment) list"
  reactions :: "(nat \<times> string) list"

fun split_comma :: "string \<Rightarrow> string list" where
  "split_comma [] = [[]]"
| "split_comma (c # cs) =
     (if c = CHR '','' then [] # split_comma cs
      else (case split_comma cs of
              [] \<Rightarrow> [[c]]
            | x # xs \<Rightarrow> (c # x) # xs))"

fun date_ge :: "date \<Rightarrow> date \<Rightarrow> bool" where
  "date_ge (Date a) (Date b) = (a \<ge> b)"
| "date_ge _ _ = False"

definition gh_matches :: "(string \<Rightarrow> date) \<Rightarrow> issue_query \<Rightarrow> issue \<Rightarrow> bool" where
  "gh_matches parse q i =
     (list_all (\<lambda>l. l \<in> set (labels i)) (split_comma (q_labels q)) \<and>
      (q_state q = ''all'' \<or> state i = q_state q) \<and>
      (case q_since q of
         None \<Rightarrow> True
       | Some t \<Rightarrow> date_ge (parse (updated_at i)) (parse t)))"

definition gh_has_issue :: "nat \<Rightarrow> gh_world \<Rightarrow> bool" where
  "gh_has_issue n w = list_ex (\<lambda>i. number i = n) (issues w)"

definition gh_GET_issue :: "nat \<Rightarrow> gh_world \<Rightarrow> (nat + issue) \<times> gh_world" where
  "gh_GET_issue n w =
     (case find (\<lambda>i. number i = n) (issues w) of
        None \<Rightarrow> (Inl 404, w)
      | Some i \<Rightarrow> (Inr i, w))"

definition gh_GET_issues ::
    "(string \<Rightarrow> date) \<Rightarrow> issue_query \<Rightarrow> gh_world \<Rightarrow> (nat + issue list) \<times> gh_world" where
  "gh_GET_issues parse q w = (Inr (filter (gh_matches parse q) (issues w)), w)"

definition gh_POST_issue ::
    "(int \<Rightarrow> string) \<Rightarrow> new_issue \<Rightarrow> gh_world \<Rightarrow> (nat + issue) \<times> gh_world" where
  "gh_POST_issue fmt n w =
     (let i = \<lparr>number = Suc (length (issues w)), title = n_title n, body = Some (n_body n),
               labels = n_labels n, state = ''open'', created_at = fmt (clock w),
               updated_at = fmt (clock w)\<rparr>
      in (Inr i, w\<lparr>issues := i # issues w\<rparr>))"

definition gh_POST_comment ::
    "(int \<Rightarrow> string) \<Rightarrow> nat \<Rightarrow> jstext \<Rightarrow> gh_world \<Rightarrow> (nat + comment) \<times> gh_world" where
  "gh_POST_comment fmt n b w =
     (if \<not> gh_has_issue n w then (Inl 404, w)
      else
        let c = \<lparr>comment_id = Suc (length (comments w)), comment_body = b,
                 comment_created_at = fmt (clock w)\<rparr>
        in (Inr c,
            w\<lparr>comments := comments w @ [(n, c)],
              issues := map (\<lambda>i. if number i = n then i\<lparr>updated_at := fmt (clock w)\<rparr> else i)
                          (issues w)\<rparr>))"

definition gh_POST_reaction :: "nat \<Rightarrow> string \<Rightarrow> gh_world \<Rightarrow> (nat + unit) \<times> gh_world" where
  "gh_POST_reaction cid content w =
     (if list_ex (\<lambda>(n, c). comment_id c = cid) (comments w)
      then (Inr (), w\<lparr>reactions := reactions w @ [(cid, content)]\<rparr>)
      else (Inl 404, w))"

definition gh_PATCH_issue ::
    "(int \<Rightarrow> string) \<Rightarrow> nat \<Rightarrow> string \<Rightarrow> gh_world \<Rightarrow> (nat + unit) \<times> gh_world" where
  "gh_PATCH_issue fmt n st w =
     (if \<not> gh_has_issue n w then (Inl 404, w)
      else
        (Inr (),
         w\<lparr>issues := map (\<lambda>i. if number i = n then i\<lparr>state := st, updated_at := fmt (clock w)\<rparr>
                               else i)
                       (issues w)\<rparr>))"

definition gh_comments_of :: "nat \<Rightarrow> gh_world \<Rightarrow> comment list" where
  "gh_comments_of n w = map snd (filter (\<lambda>(k, c). k = n) (comments w))"

definition gh_GET_comments :: "nat \<Rightarrow> gh_world \<Rightarrow> (nat + comment list) \<times> gh_world" where
  "gh_GET_comments n w =
     (if \<not> gh_has_issue n w then (Inl 404, w) else (Inr (gh_comments_of n w), w))"

text \<open>
  The reference platform, for given conversions \<^verbatim>\<open>toISOString\<close> and \<^verbatim>\<open>new Date(string)\<close>.
\<close>

definition gh :: "(int \<Rightarrow> string) \<Rightarrow> (string \<Rightarrow> date) \<Rightarrow> gh_world platform" where
  "gh fmt parse =
     \<lparr>Date_now = clock, toISOString = fmt, Date_parse = parse,
      GET_issue = (\<lambda>a. gh_GET_issue),
      GET_issues = (\<lambda>a. gh_GET_issues parse),
      POST_issue = (\<lambda>a. gh_POST_issue fmt),
      POST_comment = (\<lambda>a. gh_POST_comment fmt),
      POST_reaction = (\<lambda>a. gh_POST_reaction),
      PATCH_issue = (\<lambda>a. gh_PATCH_issue fmt),
      GET_comments = (\<lambda>a. gh_GET_comments)\<rparr>"

text \<open>
  The client sends no page parameters, and the tracker answers a list request with one
  page. The reference platform with a page limit: as above, but the list of issues and the
  list of comments are cut to the first \<open>p\<close> items for the limit \<open>Some p\<close>; the limit
  \<open>None\<close> leaves them whole.
\<close>

fun first_page :: "nat option \<Rightarrow> 'a list \<Rightarrow> 'a list" where
  "first_page None xs = xs"
| "first_page (Some p) xs = take p xs"

fun page_count :: "nat option \<Rightarrow> nat \<Rightarrow> nat" where
  "page_count None k = k"
| "page_count (Some p) k = min p k"

definition gh_GET_issues_paged ::
    "nat option \<Rightarrow> (string \<Rightarrow> date) \<Rightarrow> issue_query \<Rightarrow> gh_world \<Rightarrow>
       (nat + issue list) \<times> gh_world" where
  "gh_GET_issues_paged pg parse q w =
     (Inr (first_page pg (filter (gh_matches parse q) (issues w))), w)"

definition gh_GET_comments_paged ::
    "nat option \<Rightarrow> nat \<Rightarrow> gh_world \<Rightarrow> (nat + comment list) \<times> gh_world" where
  "gh_GET_comments_paged pg n w =
     (if \<not> gh_has_issue n w then (Inl 404, w)
      else (Inr (first_page pg (gh_comments_of n w)), w))"

definition gh_paged ::
    "nat option \<Rightarrow> (int \<Rightarrow> string) \<Rightarrow> (string \<Rightarrow> date) \<Rightarrow> gh_world platform" where
  "gh_paged pg fmt parse =
     (gh fmt parse)
       \<lparr>GET_issues := (\<lambda>a. gh_GET_issues_paged pg parse),
        GET_comments := (\<lambda>a. gh_GET_comments_paged pg)\<rparr>"

text \<open>
  A world is well formed when the numbers of its issues and of the issues of its comments
  are among the numbers given out so far.
\<close>

definition gh_wf :: "gh_world \<Rightarrow> bool" where
  "gh_wf w =
     (list_all (\<lambda>i. number i \<le> length (issues w)) (issues w) \<and>
      list_all (\<lambda>(n, c). n \<le> length (issues w)) (comments w))"

definition gh_empty :: "int \<Rightarrow> gh_world" where
  "gh_empty t = \<lparr>clock = t, issues = [], comments = [], reactions = []\<rparr>"

section \<open>Scenarios\<close>

text \<open>
  Concrete inputs. All of them live at one instant, midnight of 1 January 2024 (UTC), and
  the millisecond before it, so the two \<^verbatim>\<open>Date\<close> conversions are needed at these two
  instants only.
\<close>

definition instant :: int where
  "instant = 1704067200000"

definition fmt_instant :: "int \<Rightarrow> string" where
  "fmt_instant t =
     (if t = 1704067199999 then ''2023-12-31T23:59:59.999Z'' else ''2024-01-01T00:00:00.000Z'')"

definition parse_instant :: "string \<Rightarrow> date" where
  "parse_instant s =
     (if s = ''2024-01-01T00:00:00.000Z'' then Date 1704067200000
      else if s = ''2023-12-31T23:59:59.999Z'' then Date 1704067199999
      else InvalidDate)"

definition tracker :: "gh_world platform" where
  "tracker = gh fmt_instant parse_instant"

text \<open>\<^verbatim>\<open>new GitHubStoreClient(token, "owner/repo", options)\<close>, which does not throw.\<close>

definition client_of :: "token \<Rightarrow> client_options \<Rightarrow> client" where
  "client_of tok opts = projr (GitHubStoreClient tok ''owner/repo'' opts)"

definition paper_client :: client where
  "paper_client = client_of (TokenString ''secret'') default_options"

definition paper_data :: json where
  "paper_data = JObj [(''title'', JStr ''X'')]"

text \<open>The client and the world after \<^verbatim>\<open>createObject("paper:42", {title:"X"})\<close> in an empty tracker.\<close>

definition created :: "client \<times> gh_world" where
  "created = snd (createObject tracker ''paper:42'' paper_data [] (paper_client, gh_empty instant))"

text \<open>The value at a key of a result that is a map, \<open>None\<close> when the call failed.\<close>

fun lookup :: "error + (string \<rightharpoonup> stored_object) \<Rightarrow> string \<Rightarrow> stored_object option" where
  "lookup (Inr m) k = m k"
| "lookup (Inl err) k = None"

definition small_cache :: IssueCache where
  "small_cache = cache_new \<lparr>opt_maxSize = Some 2, opt_ttl = Some 10\<rparr>"

text \<open>
  The same, after a comment whose text is \<^verbatim>\<open>null\<close> was posted on issue 1 (a raw value, as
  an old client wrote it).
\<close>

definition with_null_comment :: "client \<times> gh_world" where
  "with_null_comment =
     (fst created, snd (gh_POST_comment fmt_instant 1 (JsonText JNull) (snd created)))"




text \<open>A client configured with the empty \<^verbatim>\<open>uidPrefix\<close>, after \<^verbatim>\<open>createObject("x", {title:"X"})\<close>.\<close>

definition bare_client :: client where
  "bare_client = client_of (TokenString ''secret'') (default_options\<lparr>opt_uidPrefix := Some []\<rparr>)"

definition bare_created :: "client \<times> gh_world" where
  "bare_created = snd (createObject tracker ''x'' paper_data [] (bare_client, gh_empty instant))"

section \<open>Sequences of calls\<close>

text \<open>
  The state in which the cache of the client says, since the time \<open>t\<close>, that the object
  \<open>e\<close> is issue \<open>n\<close>, and issue \<open>n\<close> is the newest issue of the reference tracker, carries
  the two labels that \<^verbatim>\<open>updateObject\<close> and \<^verbatim>\<open>getObjectHistory\<close> ask for, has the body
  \<open>d\<close> and has \<open>k\<close> comments.
\<close>

definition tracked ::
    "string \<Rightarrow> nat \<Rightarrow> json \<Rightarrow> nat \<Rightarrow> int \<Rightarrow> client \<Rightarrow> gh_world \<Rightarrow> bool" where
  "tracked e n d k t c w =
     (n \<noteq> 0 \<and>
      (case map_of (cache_map (cache c)) e of
         None \<Rightarrow> False
       | Some en \<Rightarrow> entry_issueNumber en = n \<and> lastAccessed en = t) \<and>
      (case issues w of
         [] \<Rightarrow> False
       | x # rest \<Rightarrow>
           number x = n \<and> body x = Some (JsonText d) \<and>
           baseLabel (config c) \<in> set (labels x) \<and>
           uidPrefix (config c) @ e \<in> set (labels x) \<and>
           list_all (\<lambda>i. number i \<noteq> n) rest) \<and>
      length (gh_comments_of n w) = k)"

text \<open>
  A sequence of calls \<^verbatim>\<open>updateObject(e, d)\<close> on a platform \<open>P\<close> over the worlds of the
  reference tracker, the call with the data \<open>d\<close> made when the clock shows \<open>t\<close>, for the
  list of the pairs \<open>(t, d)\<close>. It gives the versions that the calls return, and stops at the
  first call that fails.
\<close>

fun update_versions ::
    "gh_world platform \<Rightarrow> string \<Rightarrow> (int \<times> json) list \<Rightarrow> client \<times> gh_world \<Rightarrow>
       error + nat list" where
  "update_versions P e [] s = Inr []"
| "update_versions P e ((t, d) # tds) s =
     (case updateObject P e d (fst s, (snd s)\<lparr>clock := t\<rparr>) of
        (Inl err, s') \<Rightarrow> Inl err
      | (Inr obj, s') \<Rightarrow>
          (case update_versions P e tds s' of
             Inl err \<Rightarrow> Inl err
           | Inr vs \<Rightarrow> Inr (version (meta obj) # vs)))"

text \<open>Every call is made within \<open>ttl\<close> of the one before, the first within \<open>ttl\<close> of \<open>t0\<close>.\<close>

fun within_ttl :: "int \<Rightarrow> int \<Rightarrow> int list \<Rightarrow> bool" where
  "within_ttl l t0 [] = True"
| "within_ttl l t0 (t # ts) = (t - t0 \<le> l \<and> within_ttl l t ts)"
text \<open>
  The scenario: after \<^verbatim>\<open>createObject("paper:42", {title:"X"})\<close>, two calls of
  \<^verbatim>\<open>updateObject\<close>, with \<^verbatim>\<open>{title:"X", rating:"up"}\<close> and with \<^verbatim>\<open>{title:"X", rating:"down"}\<close>.
\<close>

definition paper_up :: json where
  "paper_up = JObj [(''title'', JStr ''X''), (''rating'', JStr ''up'')]"

definition paper_down :: json where
  "paper_down = JObj [(''title'', JStr ''X''), (''rating'', JStr ''down'')]"

definition updated_once :: "client \<times> gh_world" where
  "updated_once = snd (updateObject tracker ''paper:42'' paper_up created)"

definition updated_twice :: "client \<times> gh_world" where
  "updated_twice = snd (updateObject tracker ''paper:42'' paper_down updated_once)"

text \<open>
  The state of a cache that the methods keep up, as long as no ID is the empty string: the
  keys of the map are distinct, the recency list has them all, once each, and no more
  than \<open>maxSize\<close> of them, and none is the empty string.
\<close>

definition cache_inv :: "IssueCache \<Rightarrow> bool" where
  "cache_inv c =
     (distinct (map fst (cache_map c)) \<and> distinct (accessOrder c) \<and>
      set (accessOrder c) = set (map fst (cache_map c)) \<and>
      [] \<notin> set (accessOrder c) \<and>
      int (length (accessOrder c)) \<le> maxSize c)"

section \<open>Unfolding the definitions\<close>

lemmas client_defs =
  getObject_def cached_issue_def query_issue_def assemble_def createObject_def updateObject_def
  getVersion_def fetchFromGitHub_def createCommentPayload_def verifyIssueLabels_def
  await_def resolve_def throw_def JSON_stringify_def getObjectHistory_def history_entry_of_def
  listAll_def listAll_entry_def listUpdatedSince_def listUpdatedSince_entry_def
  getObjectIdFromLabels_def Let_def

lemmas cache_defs =
  cache_get_def cache_set_def cache_remove_def evict_tail_def cache_new_def
  updateAccessOrder_def removeFromAccessOrder_def

lemmas gh_defs =
  gh_def gh_GET_issue_def gh_GET_issues_def gh_POST_issue_def gh_POST_comment_def
  gh_POST_reaction_def gh_PATCH_issue_def gh_GET_comments_def gh_comments_of_def
  gh_has_issue_def gh_matches_def gh_empty_def

lemmas fixture_defs =
  tracker_def client_of_def paper_client_def paper_data_def GitHubStoreClient_def
  default_options_def instant_def fmt_instant_def parse_instant_def

section \<open>Properties of the cache\<close>

lemma map_of_delete_same: "map_of (AList.delete k al) k = None"
  by (simp add: AList.delete_conv')

text \<open>
  C6: an entry whose time since the last access exceeds \<open>ttl\<close> is evicted by the next
  \<^verbatim>\<open>get\<close>, which returns \<^verbatim>\<open>undefined\<close>; a \<^verbatim>\<open>get\<close> of an entry that has not expired
  returns its issue number, stamps it with the current time and moves its ID to the front
  of the recency list.
\<close>

theorem C6_cache_get_ttl:
  assumes "map_of (cache_map c) e = Some t"
  shows "(now - lastAccessed t > ttl c \<longrightarrow>
            fst (cache_get now e c) = None \<and>
            map_of (cache_map (snd (cache_get now e c))) e = None \<and>
            accessOrder (snd (cache_get now e c)) = remove1 e (accessOrder c) \<and>
            fst (cache_get now' e (snd (cache_get now e c))) = None) \<and>
         (\<not> now - lastAccessed t > ttl c \<longrightarrow>
            fst (cache_get now e c) = Some (entry_issueNumber t) \<and>
            map_of (cache_map (snd (cache_get now e c))) e = Some (t\<lparr>lastAccessed := now\<rparr>) \<and>
            accessOrder (snd (cache_get now e c)) = e # remove1 e (accessOrder c))"
  using assms
  by (simp add: cache_get_def map_of_delete_same AList.update_conv'
      removeFromAccessOrder_def updateAccessOrder_def)

theorem C6_cache_get_ttl_witness:
  "map_of (cache_map (cache_set 0 ''a'' 7 (InvalidDate, InvalidDate) small_cache)) ''a''
     = Some \<lparr>entry_issueNumber = 7, lastAccessed = 0, entry_createdAt = InvalidDate,
             entry_updatedAt = InvalidDate\<rparr> \<and>
   ttl (cache_set 0 ''a'' 7 (InvalidDate, InvalidDate) small_cache) = 10 \<and>
   fst (cache_get 11 ''a'' (cache_set 0 ''a'' 7 (InvalidDate, InvalidDate) small_cache)) = None \<and>
   fst (cache_get 10 ''a'' (cache_set 0 ''a'' 7 (InvalidDate, InvalidDate) small_cache)) = Some 7"
proof -
  let ?c = "cache_set 0 ''a'' 7 (InvalidDate, InvalidDate) small_cache"
  let ?t = "\<lparr>entry_issueNumber = 7, lastAccessed = 0, entry_createdAt = InvalidDate,
             entry_updatedAt = InvalidDate\<rparr>"
  have h: "map_of (cache_map ?c) ''a'' = Some ?t"
    by (simp add: cache_set_def small_cache_def cache_new_def)
  have t: "ttl ?c = 10"
    by (simp add: cache_set_def small_cache_def cache_new_def)
  show ?thesis
    using h t C6_cache_get_ttl [OF h, of 11 11] C6_cache_get_ttl [OF h, of 10 10] by simp
qed

text \<open>
  C5: the size of the cache is meant to stay within \<open>maxSize\<close>. With \<open>maxSize = 2\<close>, the
  IDs \<^verbatim>\<open>""\<close>, \<^verbatim>\<open>"a"\<close> and \<^verbatim>\<open>"b"\<close> inserted in this order are all three in the cache
  afterwards: when \<^verbatim>\<open>"b"\<close> arrives the tail of the recency list is the empty string, which
  the guard \<^verbatim>\<open>s&&(...)\<close> takes for a missing tail, and nothing is evicted.
\<close>

theorem C5_empty_id_not_evicted:
  "maxSize small_cache = 2 \<and>
   length (cache_map (cache_set_all 0 ['''', ''a'', ''b''] small_cache)) = 3 \<and>
   map fst (cache_map (cache_set_all 0 ['''', ''a'', ''b''] small_cache)) = ['''', ''a'', ''b'']"
  by (simp add: cache_set_def small_cache_def cache_new_def evict_tail_def
      updateAccessOrder_def removeFromAccessOrder_def cache_remove_def)

subsection \<open>The bound of the cache for IDs that are not empty\<close>

lemma remove1_last:
  "distinct xs \<Longrightarrow> xs \<noteq> [] \<Longrightarrow> remove1 (last xs) xs = butlast xs"
  by (induction xs) (auto simp: remove1_idem)

lemma cache_inv_length:
  "cache_inv c \<Longrightarrow> length (cache_map c) = length (accessOrder c)"
proof -
  assume inv: "cache_inv c"
  then have a: "distinct (map fst (cache_map c))" and b: "distinct (accessOrder c)"
    and c: "set (accessOrder c) = set (map fst (cache_map c))"
    unfolding cache_inv_def by blast+
  from distinct_card [OF a] distinct_card [OF b] c show ?thesis
    by (metis length_map)
qed

text \<open>
  One \<^verbatim>\<open>set\<close> of a new ID that is not empty: the ID goes to the front of the recency list,
  and of the list only the first \<open>maxSize\<close> IDs remain.
\<close>

lemma cache_set_fresh:
  assumes inv: "cache_inv c" and new: "e \<notin> set (map fst (cache_map c))" and ne: "e \<noteq> []"
    and pos: "1 \<le> maxSize c"
  shows "cache_inv (cache_set now e n r c) \<and>
         maxSize (cache_set now e n r c) = maxSize c \<and>
         accessOrder (cache_set now e n r c) = take (nat (maxSize c)) (e # accessOrder c) \<and>
         set (map fst (cache_map (cache_set now e n r c)))
           = set (take (nat (maxSize c)) (e # accessOrder c))"
proof -
  let ?ao = "accessOrder c" and ?m = "cache_map c"
  from inv have d: "distinct (map fst ?m)" "distinct ?ao" "set ?ao = set (map fst ?m)"
    "[] \<notin> set ?ao" "int (length ?ao) \<le> maxSize c"
    unfolding cache_inv_def by blast+
  from new have none: "map_of ?m e = None"
    by (simp add: map_of_eq_None_iff)
  from new d(3) have eao: "e \<notin> set ?ao" by simp
  note len = cache_inv_length [OF inv]
  show ?thesis
  proof (cases "int (length ?m) \<ge> maxSize c")
    case False
    with len have lt: "length ?ao < nat (maxSize c)" by simp
    let ?c' = "cache_set now e n r c"
    have ao': "accessOrder ?c' = e # ?ao" and m': "map fst (cache_map ?c') = map fst ?m @ [e]"
      and ms: "maxSize ?c' = maxSize c"
      using False new eao
      by (simp_all add: cache_set_def updateAccessOrder_def removeFromAccessOrder_def
          AList.update_keys remove1_idem)
    from lt have tk: "take (nat (maxSize c)) (e # ?ao) = e # ?ao" by simp
    have "cache_inv ?c'"
      using d new eao ne lt ao' m' ms by (simp add: cache_inv_def)
    with ao' m' ms tk d(3) show ?thesis by auto
  next
    case True
    with len d(5) pos have full: "int (length ?ao) = maxSize c" and nonempty: "?ao \<noteq> []"
      by auto
    let ?s = "last ?ao"
    from nonempty d(4) have s: "?s \<noteq> []" "?s \<in> set ?ao"
      by (metis last_in_set, simp)
    let ?c' = "cache_set now e n r c"
    have ev: "evict_tail c = c\<lparr>cache_map := AList.delete ?s ?m, accessOrder := butlast ?ao\<rparr>"
      using nonempty s(1) d(2)
      by (simp add: evict_tail_def cache_remove_def removeFromAccessOrder_def Let_def remove1_last)
    from eao have eb: "e \<notin> set (butlast ?ao)"
      by (meson in_set_butlastD)
    from new have ed: "e \<notin> set (removeAll ?s (map fst ?m))" by simp
    have ao': "accessOrder ?c' = e # butlast ?ao"
      and m': "map fst (cache_map ?c') = removeAll ?s (map fst ?m) @ [e]"
      and ms: "maxSize ?c' = maxSize c"
      using True none ev eb ed
      by (simp_all add: cache_set_def updateAccessOrder_def removeFromAccessOrder_def
          AList.update_keys AList.delete_keys remove1_idem)
    from full have nl: "nat (maxSize c) = Suc (length ?ao - 1)"
      using nonempty by (cases ?ao) auto
    have tk: "take (nat (maxSize c)) (e # ?ao) = e # butlast ?ao"
      unfolding nl by (simp add: butlast_conv_take)
    from d(2) nonempty have sb: "set (butlast ?ao) = set ?ao - {?s}"
      by (metis append_butlast_last_id distinct_append distinct.simps(2) remove1_last
          set_remove1_eq)
    have keys: "set (removeAll ?s (map fst ?m)) = set (butlast ?ao)"
      using sb d(3) by auto
    have "cache_inv ?c'"
      unfolding cache_inv_def ao' m' ms
      using d new eb ne keys full nonempty
      by (auto simp: distinct_butlast distinct_removeAll dest: in_set_butlastD)
    with ao' m' ms tk keys show ?thesis by auto
  qed
qed


lemma take_append_take: "take m (xs @ take m ys) = take m (xs @ ys)"
  by (simp add: min_def)

lemma cache_set_all_fresh:
  assumes "cache_inv c" and "distinct es" and "set es \<inter> set (map fst (cache_map c)) = {}"
    and "[] \<notin> set es" and "1 \<le> maxSize c"
  shows "cache_inv (cache_set_all now es c) \<and>
         maxSize (cache_set_all now es c) = maxSize c \<and>
         accessOrder (cache_set_all now es c) = take (nat (maxSize c)) (rev es @ accessOrder c)"
  using assms
proof (induction es arbitrary: c)
  case Nil
  then have "int (length (accessOrder c)) \<le> maxSize c"
    unfolding cache_inv_def by blast
  with Nil show ?case by simp
next
  case (Cons e es)
  let ?c1 = "cache_set now e (Suc (length (cache_map c))) (InvalidDate, InvalidDate) c"
  from Cons.prems have new: "e \<notin> set (map fst (cache_map c))" and ne: "e \<noteq> []"
    by auto
  from Cons.prems(1) have keys: "set (accessOrder c) = set (map fst (cache_map c))"
    unfolding cache_inv_def by blast
  from cache_set_fresh [OF Cons.prems(1) new ne Cons.prems(5), of now "Suc (length (cache_map c))"
      "(InvalidDate, InvalidDate)"]
  have 1: "cache_inv ?c1" "maxSize ?c1 = maxSize c"
    "accessOrder ?c1 = take (nat (maxSize c)) (e # accessOrder c)"
    "set (map fst (cache_map ?c1)) = set (take (nat (maxSize c)) (e # accessOrder c))"
    by blast+
  have "set (take (nat (maxSize c)) (e # accessOrder c)) \<subseteq> insert e (set (accessOrder c))"
    using set_take_subset [of "nat (maxSize c)" "e # accessOrder c"] by simp
  with 1(4) keys Cons.prems(2,3)
  have disj: "set es \<inter> set (map fst (cache_map ?c1)) = {}"
    by auto
  from Cons.prems have d: "distinct es" "[] \<notin> set es" "1 \<le> maxSize ?c1"
    using 1(2) by auto
  from Cons.IH [OF 1(1) d(1) disj d(2,3)] 1(2,3)
  have "cache_inv (cache_set_all now es ?c1)"
    "maxSize (cache_set_all now es ?c1) = maxSize c"
    "accessOrder (cache_set_all now es ?c1)
       = take (nat (maxSize c)) (rev es @ take (nat (maxSize c)) (e # accessOrder c))"
    by simp_all
  then show ?case
    by (simp add: take_append_take del: take_append)
qed

lemma cache_inv_new: "0 \<le> maxSize (cache_new opts) \<Longrightarrow> cache_inv (cache_new opts)"
  by (simp add: cache_inv_def cache_new_def)

text \<open>
  For IDs that are not empty and a capacity of at least one the bound holds:
  \<open>maxSize + k\<close> distinct IDs inserted into a new cache leave \<open>maxSize\<close> entries, those of
  the IDs inserted last; the \<open>k\<close> IDs inserted first, the least recently used, are gone.
\<close>

lemma cache_bound_nonempty_ids:
  assumes "1 \<le> maxSize (cache_new opts)" and "distinct es" and "[] \<notin> set es"
    and "length es = nat (maxSize (cache_new opts)) + k"
  shows "length (cache_map (cache_set_all now es (cache_new opts))) = nat (maxSize (cache_new opts)) \<and>
         set (map fst (cache_map (cache_set_all now es (cache_new opts)))) = set (drop k es) \<and>
         accessOrder (cache_set_all now es (cache_new opts)) = rev (drop k es)"
proof -
  let ?init = "cache_new opts" and ?final = "cache_set_all now es (cache_new opts)"
  from assms(1) have inv0: "cache_inv ?init" by (simp add: cache_inv_new)
  have empty: "cache_map ?init = []" "accessOrder ?init = []"
    by (simp_all add: cache_new_def)
  have disj: "set es \<inter> set (map fst (cache_map ?init)) = {}"
    using empty by simp
  from cache_set_all_fresh [OF inv0 assms(2) disj assms(3,1), of now] empty
  have inv: "cache_inv ?final" and ao: "accessOrder ?final = take (nat (maxSize ?init)) (rev es)"
    by simp_all
  from assms(4) have "take (nat (maxSize ?init)) (rev es) = rev (drop k es)"
    by (simp add: take_rev)
  with ao have ao': "accessOrder ?final = rev (drop k es)" by simp
  from inv have "set (accessOrder ?final) = set (map fst (cache_map ?final))"
    unfolding cache_inv_def by blast
  with ao' have keys: "set (map fst (cache_map ?final)) = set (drop k es)"
    by (metis set_rev)
  from cache_inv_length [OF inv] ao' assms(4)
  have "length (cache_map ?final) = nat (maxSize ?init)" by simp
  with keys ao' show ?thesis by blast
qed

section \<open>The mutation gate\<close>

text \<open>
  C9: \<^verbatim>\<open>isPublic\<close> holds for the token \<^verbatim>\<open>null\<close> only, whereas \<^verbatim>\<open>createObject\<close> and
  \<^verbatim>\<open>updateObject\<close> fail with the authentication error for every falsy token, before any
  request and leaving the cache alone. So a client whose token is \<^verbatim>\<open>undefined\<close> or the
  empty string is not public and still cannot write.
\<close>

theorem C9_falsy_token_gate:
  "(isPublic c \<longleftrightarrow> token c = TokenNull) \<and>
   (\<not> truthy_token (token c) \<longrightarrow>
      createObject P e t r (c, w) =
        (Inl (Error ''Authentication required for creating objects''), c, w) \<and>
      updateObject P e t (c, w) =
        (Inl (Error ''Authentication required for updating objects''), c, w)) \<and>
   (token c = TokenUndefined \<or> token c = TokenString [] \<longrightarrow>
      \<not> isPublic c \<and> \<not> truthy_token (token c))"
  by (auto simp: isPublic_def createObject_def updateObject_def throw_def)

theorem C9_falsy_token_gate_witness:
  "token (client_of TokenUndefined default_options) = TokenUndefined \<and>
   token (client_of (TokenString []) default_options) = TokenString [] \<and>
   \<not> isPublic (client_of TokenUndefined default_options) \<and>
   \<not> isPublic (client_of (TokenString []) default_options) \<and>
   fst (createObject tracker ''paper:42'' paper_data []
          (client_of TokenUndefined default_options, gh_empty instant))
     = Inl (Error ''Authentication required for creating objects'') \<and>
   fst (updateObject tracker ''paper:42'' paper_data
          (client_of (TokenString []) default_options, gh_empty instant))
     = Inl (Error ''Authentication required for updating objects'')"
proof -
  have u: "token (client_of TokenUndefined default_options) = TokenUndefined"
    and e: "token (client_of (TokenString []) default_options) = TokenString []"
    by (simp_all add: client_of_def GitHubStoreClient_def)
  show ?thesis
    using u e
      C9_falsy_token_gate [of "client_of TokenUndefined default_options" tracker "''paper:42''"
        paper_data "[]" "gh_empty instant"]
      C9_falsy_token_gate [of "client_of (TokenString []) default_options" tracker "''paper:42''"
        paper_data "[]" "gh_empty instant"]
    by simp
qed

section \<open>Scenario states\<close>

lemma created_eq:
  "created =
     (\<lparr>token = TokenString ''secret'', repo = ''owner/repo'',
       config = \<lparr>baseLabel = ''stored-object'', uidPrefix = ''UID:'',
                  reaction_processed = ''+1'', reaction_initialState = ''rocket''\<rparr>,
       cache = \<lparr>cache_map =
                  [(''paper:42'',
                    \<lparr>entry_issueNumber = 1, lastAccessed = 1704067200000,
                     entry_createdAt = Date 1704067200000,
                     entry_updatedAt = Date 1704067200000\<rparr>)],
                maxSize = 1000, ttl = 3600000, accessOrder = [''paper:42'']\<rparr>\<rparr>,
      \<lparr>clock = 1704067200000,
       issues =
         [\<lparr>number = 1, title = ''Stored Object: paper:42'',
           body = Some (JsonText (JObj [(''title'', JStr ''X'')])),
           labels = [''gh-store'', ''stored-object'', ''UID:paper:42''],
           state = ''closed'', created_at = ''2024-01-01T00:00:00.000Z'',
           updated_at = ''2024-01-01T00:00:00.000Z''\<rparr>],
       comments =
         [(1, \<lparr>comment_id = 1,
               comment_body =
                 JsonText
                   (JObj
                     [(''_data'', JObj [(''title'', JStr ''X'')]),
                      (''_meta'',
                       JObj
                         [(''client_version'', JStr ''0.11.1''),
                          (''timestamp'', JStr ''2024-01-01T00:00:00.000Z''),
                          (''update_mode'', JStr ''append''),
                          (''issue_number'', JNum 1)]),
                      (''type'', JStr ''initial_state'')]),
               comment_created_at = ''2024-01-01T00:00:00.000Z''\<rparr>)],
       reactions = [(1, ''+1''), (1, ''rocket'')]\<rparr>)"
  by (simp add: created_def client_defs cache_defs gh_defs fixture_defs)

section \<open>Decoding the history\<close>

text \<open>
  What the loop body makes of a comment: a text that does not parse and the text
  \<^verbatim>\<open>null\<close> are skipped; an object with the key \<^verbatim>\<open>_data\<close> is an envelope, whose type is
  its truthy \<^verbatim>\<open>type\<close> or \<^verbatim>\<open>"update"\<close>; an object without \<^verbatim>\<open>_data\<close> whose \<^verbatim>\<open>type\<close> is
  \<^verbatim>\<open>"initial_state"\<close> is an initial state; every other value is the data of an update.
\<close>

lemma history_entry_of_shapes:
  fixes a :: comment
  shows "comment_body a = OtherText s \<Longrightarrow> history_entry_of a = Inl SyntaxError"
    and "comment_body a = JsonText JNull \<Longrightarrow> history_entry_of a = Inl TypeError"
    and "comment_body a = JsonText (JObj kvs) \<Longrightarrow> map_of kvs ''_data'' = Some d \<Longrightarrow>
         history_entry_of a =
           Inr \<lparr>entry_timestamp = comment_created_at a,
                entry_type = (case map_of kvs ''type'' of
                                None \<Rightarrow> JStr ''update''
                              | Some ty \<Rightarrow> if truthy ty then ty else JStr ''update''),
                entry_data = Some d, commentId = comment_id a\<rparr>"
    and "comment_body a = JsonText (JObj kvs) \<Longrightarrow> map_of kvs ''_data'' = None \<Longrightarrow>
         map_of kvs ''type'' = Some (JStr ''initial_state'') \<Longrightarrow>
         history_entry_of a =
           Inr \<lparr>entry_timestamp = comment_created_at a, entry_type = JStr ''initial_state'',
                entry_data = map_of kvs ''data'', commentId = comment_id a\<rparr>"
    and "comment_body a = JsonText n \<Longrightarrow> n \<noteq> JNull \<Longrightarrow>
         (\<And>kvs. n = JObj kvs \<Longrightarrow> map_of kvs ''_data'' = None \<and>
                     map_of kvs ''type'' \<noteq> Some (JStr ''initial_state'')) \<Longrightarrow>
         history_entry_of a =
           Inr \<lparr>entry_timestamp = comment_created_at a, entry_type = JStr ''update'',
                entry_data = Some n, commentId = comment_id a\<rparr>"
  by (auto simp: history_entry_of_def split: json.splits option.splits)

lemma with_null_comment_comments:
  "gh_comments_of 1 (snd with_null_comment) =
     [\<lparr>comment_id = 1,
       comment_body =
         JsonText
           (JObj
             [(''_data'', JObj [(''title'', JStr ''X'')]),
              (''_meta'',
               JObj
                 [(''client_version'', JStr ''0.11.1''),
                  (''timestamp'', JStr ''2024-01-01T00:00:00.000Z''),
                  (''update_mode'', JStr ''append''),
                  (''issue_number'', JNum 1)]),
              (''type'', JStr ''initial_state'')]),
       comment_created_at = ''2024-01-01T00:00:00.000Z''\<rparr>,
      \<lparr>comment_id = 2, comment_body = JsonText JNull,
       comment_created_at = ''2024-01-01T00:00:00.000Z''\<rparr>]"
  by (simp add: with_null_comment_def created_eq gh_defs fixture_defs Let_def)

text \<open>
  C7: a comment whose text is the well-formed JSON value \<^verbatim>\<open>null\<close> makes the decoding
  throw a \<^verbatim>\<open>TypeError\<close> (\<^verbatim>\<open>"_data" in null\<close>), and \<^verbatim>\<open>getObjectHistory\<close> skips it: of
  the two comments of issue 1 only the initial state is in the history.
\<close>

theorem C7_null_comment_skipped:
  "history_entry_of \<lparr>comment_id = 2, comment_body = JsonText JNull,
                     comment_created_at = ''2024-01-01T00:00:00.000Z''\<rparr> = Inl TypeError \<and>
   length (gh_comments_of 1 (snd with_null_comment)) = 2 \<and>
   fst (getObjectHistory tracker ''paper:42'' with_null_comment) =
     Inr [\<lparr>entry_timestamp = ''2024-01-01T00:00:00.000Z'', entry_type = JStr ''initial_state'',
           entry_data = Some (JObj [(''title'', JStr ''X'')]), commentId = 1\<rparr>]"
  by (simp add: with_null_comment_comments)
     (simp add: with_null_comment_def created_eq client_defs gh_defs fixture_defs)
section \<open>What the methods leave alone\<close>

lemma fetchFromGitHub_client:
  "fetchFromGitHub ep s = (r, s') \<Longrightarrow> fst s' = fst s"
  by (auto simp: fetchFromGitHub_def split: prod.splits sum.splits)

lemma getVersion_client:
  "getVersion P n s = (r, s') \<Longrightarrow> fst s' = fst s"
  by (auto simp: getVersion_def await_def resolve_def split: prod.splits sum.splits
      dest: fetchFromGitHub_client)

lemma await_Inr:
  "await m f s = (Inr v, s') \<Longrightarrow> \<exists>x s1. m s = (Inr x, s1) \<and> f x s1 = (Inr v, s')"
  by (auto simp: await_def split: prod.splits sum.splits)

lemma cached_issue_config:
  "cached_issue P e s = (r, s') \<Longrightarrow>
   config (fst s') = config (fst s) \<and> token (fst s') = token (fst s)"
  by (auto simp: cached_issue_def Let_def fetchFromGitHub_def
      split: prod.splits sum.splits option.splits if_splits)

lemma query_issue_client:
  "query_issue P e s = (r, s') \<Longrightarrow> fst s' = fst s"
  by (auto simp: query_issue_def await_def resolve_def throw_def
      split: prod.splits sum.splits list.splits dest: fetchFromGitHub_client)

section \<open>listUpdatedSince\<close>

lemma listUpdatedSince_entry_Some:
  assumes "listUpdatedSince_entry P e r s = (Inr (Some (k, obj)), s')"
  shows "date_gt (Date_parse P (updated_at r)) e \<and>
         updatedAt (meta obj) = Date_parse P (updated_at r) \<and>
         issueNumber (meta obj) = number r"
  using assms
  by (auto simp: listUpdatedSince_entry_def await_def resolve_def throw_def Let_def
      split: prod.splits sum.splits if_splits)

text \<open>
  The invariant of the loop: an object in the result was there before or comes from one of
  the issues, whose \<^verbatim>\<open>updated_at\<close> passed the test.
\<close>

lemma listUpdatedSince_loop_inv:
  assumes "listUpdatedSince_loop P e rs t s = (t', s')" and "t' k = Some obj"
  shows "t k = Some obj \<or>
         (\<exists>r \<in> set rs. date_gt (Date_parse P (updated_at r)) e \<and>
            updatedAt (meta obj) = Date_parse P (updated_at r) \<and>
            issueNumber (meta obj) = number r)"
  using assms
proof (induction rs arbitrary: t s)
  case Nil
  then show ?case by simp
next
  case (Cons r rs)
  show ?case
  proof (cases "list_ex (\<lambda>l. l = ''archived'') (labels r)")
    case True
    with Cons.prems have "listUpdatedSince_loop P e rs t s = (t', s')" by simp
    from Cons.IH [OF this Cons.prems(2)] show ?thesis by auto
  next
    case False
    obtain x s1 where ent: "listUpdatedSince_entry P e r s = (x, s1)"
      by (cases "listUpdatedSince_entry P e r s")
    show ?thesis
    proof (cases x)
      case (Inl err)
      with Cons.prems False ent have "listUpdatedSince_loop P e rs t s1 = (t', s')" by simp
      from Cons.IH [OF this Cons.prems(2)] show ?thesis by auto
    next
      case (Inr y)
      show ?thesis
      proof (cases y)
        case None
        with Cons.prems False ent Inr have "listUpdatedSince_loop P e rs t s1 = (t', s')"
          by simp
        from Cons.IH [OF this Cons.prems(2)] show ?thesis by auto
      next
        case (Some kv)
        obtain k' obj' where kv: "kv = (k', obj')" by (cases kv)
        with Cons.prems False ent Inr Some
        have loop: "listUpdatedSince_loop P e rs (t(k' \<mapsto> obj')) s1 = (t', s')" by simp
        from ent Inr Some kv
        have fact: "date_gt (Date_parse P (updated_at r)) e \<and>
                    updatedAt (meta obj') = Date_parse P (updated_at r) \<and>
                    issueNumber (meta obj') = number r"
          using listUpdatedSince_entry_Some [of P e r s k' obj' s1] by simp
        from Cons.IH [OF loop Cons.prems(2)] fact show ?thesis
          by (auto split: if_splits)
      qed
    qed
  qed
qed

lemma date_gt_Date: "date_gt x (Date ms) \<longleftrightarrow> (\<exists>u. x = Date u \<and> ms < u)"
  by (cases x) auto

text \<open>
  C8: every object in the result of \<^verbatim>\<open>listUpdatedSince(timestamp)\<close> was assembled from an
  issue of the response whose \<^verbatim>\<open>updated_at\<close> is a valid date strictly after the timestamp,
  whatever the tracker returned for the \<^verbatim>\<open>since\<close> filter; the object's \<^verbatim>\<open>updatedAt\<close> is that
  date.
\<close>

theorem C8_listUpdatedSince_strict:
  assumes "listUpdatedSince P e (c, w) = (Inr m, s')" and "m k = Some obj"
  shows "\<exists>ms rs w1 r u.
           e = Date ms \<and>
           GET_issues P (authorization (token c))
             \<lparr>q_labels = baseLabel (config c), q_state = ''closed'',
              q_since = Some (toISOString P ms)\<rparr> w = (Inr rs, w1) \<and>
           r \<in> set rs \<and> issueNumber (meta obj) = number r \<and>
           Date_parse P (updated_at r) = Date u \<and> updatedAt (meta obj) = Date u \<and> ms < u"
proof (cases e)
  case InvalidDate
  with assms show ?thesis by (simp add: listUpdatedSince_def throw_def)
next
  case (Date ms)
  let ?q = "\<lparr>q_labels = baseLabel (config c), q_state = ''closed'',
              q_since = Some (toISOString P ms)\<rparr>"
  obtain x w1 where g: "GET_issues P (authorization (token c)) ?q w = (x, w1)"
    by (cases "GET_issues P (authorization (token c)) ?q w")
  show ?thesis
  proof (cases x)
    case (Inl status)
    with assms Date g show ?thesis
      by (simp add: listUpdatedSince_def await_def fetchFromGitHub_def)
  next
    case (Inr rs)
    with assms Date g
    have "listUpdatedSince_loop P e rs Map.empty (c, w1) = (m, s')"
      by (simp add: listUpdatedSince_def await_def fetchFromGitHub_def split: prod.splits)
    from listUpdatedSince_loop_inv [OF this assms(2)] obtain r where
      "r \<in> set rs" "date_gt (Date_parse P (updated_at r)) e"
      "updatedAt (meta obj) = Date_parse P (updated_at r)" "issueNumber (meta obj) = number r"
      by auto
    with Date g Inr show ?thesis
      by (auto simp: date_gt_Date)
  qed
qed

lemma listUpdatedSince_created:
  "listUpdatedSince tracker (Date 1704067199999) created =
     (Inr [''paper:42'' \<mapsto>
            \<lparr>meta = \<lparr>objectId = ''paper:42'', label = ''paper:42'', issueNumber = 1,
                     createdAt = Date 1704067200000, updatedAt = Date 1704067200000,
                     version = 2\<rparr>,
             data = JObj [(''title'', JStr ''X'')]\<rparr>],
      created)"
  by (simp add: created_eq client_defs gh_defs fixture_defs numeral_2_eq_2)

lemma listUpdatedSince_created_boundary:
  "listUpdatedSince tracker (Date 1704067200000) created = (Inr Map.empty, created)"
  by (simp add: created_eq client_defs gh_defs fixture_defs)

theorem C8_listUpdatedSince_strict_witness:
  "lookup (fst (listUpdatedSince tracker (Date 1704067199999) created)) ''paper:42'' =
     Some \<lparr>meta = \<lparr>objectId = ''paper:42'', label = ''paper:42'', issueNumber = 1,
                   createdAt = Date 1704067200000, updatedAt = Date 1704067200000,
                   version = 2\<rparr>,
           data = JObj [(''title'', JStr ''X'')]\<rparr> \<and>
   (1704067199999 :: int) < 1704067200000 \<and>
   lookup (fst (listUpdatedSince tracker (Date 1704067200000) created)) ''paper:42'' = None"
proof -
  let ?obj = "\<lparr>meta = \<lparr>objectId = ''paper:42'', label = ''paper:42'', issueNumber = 1,
                        createdAt = Date 1704067200000, updatedAt = Date 1704067200000,
                        version = 2\<rparr>,
                data = JObj [(''title'', JStr ''X'')]\<rparr>"
  have run: "listUpdatedSince tracker (Date 1704067199999) (fst created, snd created) =
               (Inr [''paper:42'' \<mapsto> ?obj], created)"
    using listUpdatedSince_created by simp
  have at: "[''paper:42'' \<mapsto> ?obj] ''paper:42'' = Some ?obj" by simp
  from C8_listUpdatedSince_strict [OF run at]
  have "\<exists>u. updatedAt (meta ?obj) = Date u \<and> (1704067199999 :: int) < u" by auto
  then show ?thesis
    by (simp add: listUpdatedSince_created listUpdatedSince_created_boundary)
qed
section \<open>The label field of the two read paths\<close>

lemma getObjectIdFromLabels_Inr:
  assumes "getObjectIdFromLabels cfg r = Inr k"
  shows "uidPrefix cfg @ k \<in> set (labels r) \<and> uidPrefix cfg @ k \<noteq> baseLabel cfg"
proof -
  let ?p = "\<lambda>t. t \<noteq> baseLabel cfg \<and> take (length (uidPrefix cfg)) t = uidPrefix cfg"
  from assms obtain t where f: "find ?p (labels r) = Some t"
    and k: "k = drop (length (uidPrefix cfg)) t"
    by (auto simp: getObjectIdFromLabels_def split: option.splits)
  from f have t: "t \<in> set (labels r)" "t \<noteq> baseLabel cfg"
    "take (length (uidPrefix cfg)) t = uidPrefix cfg"
    by (auto simp: find_Some_iff)
  from t(3) k have "uidPrefix cfg @ k = t"
    by (metis append_take_drop_id)
  with t show ?thesis by simp
qed

lemma listAll_entry_client:
  "listAll_entry P r s = (x, s') \<Longrightarrow> fst s' = fst s"
  by (auto simp: listAll_entry_def await_def resolve_def throw_def
      split: prod.splits sum.splits dest: getVersion_client)

lemma listAll_entry_Inr:
  assumes "listAll_entry P r s = (Inr (k, obj), s')"
  shows "label (meta obj) = k \<and> objectId (meta obj) = k \<and>
         issueNumber (meta obj) = number r \<and>
         getObjectIdFromLabels (config (fst s)) r = Inr k"
  using assms
  by (auto simp: listAll_entry_def await_def resolve_def throw_def
      split: prod.splits sum.splits)

lemma listAll_loop_inv:
  assumes "listAll_loop P rs t s = (t', s')" and "t' k = Some obj"
  shows "t k = Some obj \<or>
         (\<exists>r \<in> set rs. label (meta obj) = k \<and> objectId (meta obj) = k \<and>
            issueNumber (meta obj) = number r \<and>
            getObjectIdFromLabels (config (fst s)) r = Inr k)"
  using assms
proof (induction rs arbitrary: t s)
  case Nil
  then show ?case by simp
next
  case (Cons r rs)
  show ?case
  proof (cases "list_ex (\<lambda>l. l = ''archived'') (labels r)")
    case True
    with Cons.prems have "listAll_loop P rs t s = (t', s')" by simp
    from Cons.IH [OF this Cons.prems(2)] show ?thesis by auto
  next
    case False
    obtain x s1 where ent: "listAll_entry P r s = (x, s1)"
      by (cases "listAll_entry P r s")
    then have same: "fst s1 = fst s" by (rule listAll_entry_client)
    show ?thesis
    proof (cases x)
      case (Inl err)
      with Cons.prems False ent have "listAll_loop P rs t s1 = (t', s')" by simp
      from Cons.IH [OF this Cons.prems(2)] same show ?thesis by auto
    next
      case (Inr kv)
      obtain k' obj' where kv: "kv = (k', obj')" by (cases kv)
      with Cons.prems False ent Inr
      have loop: "listAll_loop P rs (t(k' \<mapsto> obj')) s1 = (t', s')" by simp
      from ent Inr kv have fact:
        "label (meta obj') = k' \<and> objectId (meta obj') = k' \<and>
         issueNumber (meta obj') = number r \<and>
         getObjectIdFromLabels (config (fst s)) r = Inr k'"
        using listAll_entry_Inr [of P r s k' obj' s1] by simp
      from Cons.IH [OF loop Cons.prems(2)] fact same show ?thesis
        by (auto split: if_splits)
    qed
  qed
qed

lemma assemble_Inr:
  assumes "assemble P e r s = (Inr obj, s')"
  shows "label (meta obj) = uidPrefix (config (fst s)) @ e \<and> objectId (meta obj) = e \<and>
         issueNumber (meta obj) = number r \<and> JSON_parse (body r) = Inr (data obj) \<and>
         truthy_text (body r)"
  using assms
  by (auto simp: assemble_def await_def resolve_def throw_def Let_def
      split: prod.splits sum.splits if_splits)

lemma getObject_label:
  assumes "getObject P e s = (Inr obj, s')"
  shows "label (meta obj) = uidPrefix (config (fst s)) @ e \<and> objectId (meta obj) = e"
proof -
  from assms obtain r0 s1 where
    1: "cached_issue P e s = (Inr r0, s1)" and
    2: "await (case r0 of Some r \<Rightarrow> resolve r | None \<Rightarrow> query_issue P e) (assemble P e) s1
          = (Inr obj, s')"
    unfolding getObject_def by (blast dest: await_Inr)
  from 2 obtain r s2 where
    3: "(case r0 of Some r \<Rightarrow> resolve r | None \<Rightarrow> query_issue P e) s1 = (Inr r, s2)" and
    4: "assemble P e r s2 = (Inr obj, s')"
    by (blast dest: await_Inr)
  from 1 have c1: "config (fst s1) = config (fst s)"
    using cached_issue_config [of P e s "Inr r0" s1] by simp
  from 3 have "fst s2 = fst s1"
    using query_issue_client [of P e s1 "Inr r" s2]
    by (cases r0) (auto simp: resolve_def)
  with c1 assemble_Inr [OF 4] show ?thesis by simp
qed

text \<open>
  C10, amended: an object that \<^verbatim>\<open>listAll\<close> returns under the key \<open>k\<close> was assembled from
  an issue of the response that carries the label \<open>uidPrefix @ k\<close>, and its \<^verbatim>\<open>meta.label\<close> is
  the bare \<open>k\<close>; \<^verbatim>\<open>getObject(k)\<close> of a client with the same configuration sets
  \<^verbatim>\<open>meta.label\<close> to \<open>uidPrefix @ k\<close>. The two differ exactly when \<^verbatim>\<open>uidPrefix\<close> is not empty.
\<close>

theorem C10_label_field:
  assumes "listAll P (c, w) = (Inr m, s1)" and "m k = Some obj"
    and "getObject P k (c', w') = (Inr obj', s2)" and "config c' = config c"
  shows "label (meta obj) = k \<and>
         (\<exists>rs w1 r.
            GET_issues P (authorization (token c))
              \<lparr>q_labels = baseLabel (config c), q_state = ''closed'', q_since = None\<rparr> w
              = (Inr rs, w1) \<and>
            r \<in> set rs \<and> issueNumber (meta obj) = number r \<and>
            uidPrefix (config c) @ k \<in> set (labels r)) \<and>
         label (meta obj') = uidPrefix (config c) @ k \<and>
         (label (meta obj) \<noteq> label (meta obj') \<longleftrightarrow> uidPrefix (config c) \<noteq> [])"
proof -
  let ?q = "\<lparr>q_labels = baseLabel (config c), q_state = ''closed'', q_since = None\<rparr>"
  obtain x w1 where g: "GET_issues P (authorization (token c)) ?q w = (x, w1)"
    by (cases "GET_issues P (authorization (token c)) ?q w")
  from assms(1) g obtain rs where x: "x = Inr rs"
    and loop: "listAll_loop P rs Map.empty (c, w1) = (m, s1)"
    by (cases x) (auto simp: listAll_def await_def fetchFromGitHub_def split: prod.splits)
  from listAll_loop_inv [OF loop assms(2)] obtain r where r: "r \<in> set rs"
    "label (meta obj) = k" "issueNumber (meta obj) = number r"
    "getObjectIdFromLabels (config c) r = Inr k"
    by auto
  from getObjectIdFromLabels_Inr [OF r(4)] have l: "uidPrefix (config c) @ k \<in> set (labels r)"
    by simp
  from getObject_label [OF assms(3)] assms(4)
  have g': "label (meta obj') = uidPrefix (config c) @ k" by simp
  from g x r l have "\<exists>rs w1 r.
            GET_issues P (authorization (token c)) ?q w = (Inr rs, w1) \<and>
            r \<in> set rs \<and> issueNumber (meta obj) = number r \<and>
            uidPrefix (config c) @ k \<in> set (labels r)"
    by blast
  with r(2) g' show ?thesis by simp
qed

lemma bare_created_eq:
  "bare_created =
     (\<lparr>token = TokenString ''secret'', repo = ''owner/repo'',
       config = \<lparr>baseLabel = ''stored-object'', uidPrefix = [],
                  reaction_processed = ''+1'', reaction_initialState = ''rocket''\<rparr>,
       cache = \<lparr>cache_map =
                  [(''x'',
                    \<lparr>entry_issueNumber = 1, lastAccessed = 1704067200000,
                     entry_createdAt = Date 1704067200000,
                     entry_updatedAt = Date 1704067200000\<rparr>)],
                maxSize = 1000, ttl = 3600000, accessOrder = [''x'']\<rparr>\<rparr>,
      \<lparr>clock = 1704067200000,
       issues =
         [\<lparr>number = 1, title = ''Stored Object: x'',
           body = Some (JsonText (JObj [(''title'', JStr ''X'')])),
           labels = [''gh-store'', ''stored-object'', ''x''],
           state = ''closed'', created_at = ''2024-01-01T00:00:00.000Z'',
           updated_at = ''2024-01-01T00:00:00.000Z''\<rparr>],
       comments =
         [(1, \<lparr>comment_id = 1,
               comment_body =
                 JsonText
                   (JObj
                     [(''_data'', JObj [(''title'', JStr ''X'')]),
                      (''_meta'',
                       JObj
                         [(''client_version'', JStr ''0.11.1''),
                          (''timestamp'', JStr ''2024-01-01T00:00:00.000Z''),
                          (''update_mode'', JStr ''append''),
                          (''issue_number'', JNum 1)]),
                      (''type'', JStr ''initial_state'')]),
               comment_created_at = ''2024-01-01T00:00:00.000Z''\<rparr>)],
       reactions = [(1, ''+1''), (1, ''rocket'')]\<rparr>)"
  by (simp add: bare_created_def bare_client_def client_defs cache_defs gh_defs fixture_defs)

text \<open>
  With the empty \<^verbatim>\<open>uidPrefix\<close> the two read paths agree: \<^verbatim>\<open>listAll\<close> files issue 1 under its
  first label other than the base label, \<^verbatim>\<open>"gh-store"\<close>, with that label, and
  \<^verbatim>\<open>getObject("gh-store")\<close> returns the very same object.
\<close>

theorem C10_empty_prefix_counterexample:
  "uidPrefix (config (fst bare_created)) = [] \<and>
   lookup (fst (listAll tracker bare_created)) ''gh-store'' =
     Some \<lparr>meta = \<lparr>objectId = ''gh-store'', label = ''gh-store'', issueNumber = 1,
                   createdAt = Date 1704067200000, updatedAt = Date 1704067200000,
                   version = 2\<rparr>,
           data = JObj [(''title'', JStr ''X'')]\<rparr> \<and>
   fst (getObject tracker ''gh-store'' bare_created) =
     Inr \<lparr>meta = \<lparr>objectId = ''gh-store'', label = ''gh-store'', issueNumber = 1,
                  createdAt = Date 1704067200000, updatedAt = Date 1704067200000,
                  version = 2\<rparr>,
          data = JObj [(''title'', JStr ''X'')]\<rparr>"
  by (simp add: bare_created_eq client_defs cache_defs gh_defs fixture_defs)

lemma listAll_created:
  "listAll tracker created =
     (Inr [''paper:42'' \<mapsto>
            \<lparr>meta = \<lparr>objectId = ''paper:42'', label = ''paper:42'', issueNumber = 1,
                     createdAt = Date 1704067200000, updatedAt = Date 1704067200000,
                     version = 2\<rparr>,
             data = JObj [(''title'', JStr ''X'')]\<rparr>],
      created)"
  by (simp add: created_eq client_defs gh_defs fixture_defs numeral_2_eq_2)

lemma getObject_created:
  "fst (getObject tracker ''paper:42'' created) =
     Inr \<lparr>meta = \<lparr>objectId = ''paper:42'', label = ''UID:paper:42'', issueNumber = 1,
                  createdAt = Date 1704067200000, updatedAt = Date 1704067200000,
                  version = 2\<rparr>,
          data = JObj [(''title'', JStr ''X'')]\<rparr>"
  by (simp add: created_eq client_defs cache_defs gh_defs fixture_defs)

theorem C10_label_field_witness:
  "lookup (fst (listAll tracker created)) ''paper:42'' =
     Some \<lparr>meta = \<lparr>objectId = ''paper:42'', label = ''paper:42'', issueNumber = 1,
                   createdAt = Date 1704067200000, updatedAt = Date 1704067200000,
                   version = 2\<rparr>,
           data = JObj [(''title'', JStr ''X'')]\<rparr> \<and>
   fst (getObject tracker ''paper:42'' created) =
     Inr \<lparr>meta = \<lparr>objectId = ''paper:42'', label = ''UID:paper:42'', issueNumber = 1,
                  createdAt = Date 1704067200000, updatedAt = Date 1704067200000,
                  version = 2\<rparr>,
          data = JObj [(''title'', JStr ''X'')]\<rparr> \<and>
   uidPrefix (config (fst created)) = ''UID:'' \<and>
   ''paper:42'' \<noteq> ''UID:paper:42''"
proof -
  let ?a = "\<lparr>meta = \<lparr>objectId = ''paper:42'', label = ''paper:42'', issueNumber = 1,
                      createdAt = Date 1704067200000, updatedAt = Date 1704067200000,
                      version = 2\<rparr>,
              data = JObj [(''title'', JStr ''X'')]\<rparr>"
  let ?b = "\<lparr>meta = \<lparr>objectId = ''paper:42'', label = ''UID:paper:42'', issueNumber = 1,
                      createdAt = Date 1704067200000, updatedAt = Date 1704067200000,
                      version = 2\<rparr>,
              data = JObj [(''title'', JStr ''X'')]\<rparr>"
  have 1: "listAll tracker (fst created, snd created) = (Inr [''paper:42'' \<mapsto> ?a], created)"
    using listAll_created by simp
  have 2: "[''paper:42'' \<mapsto> ?a] ''paper:42'' = Some ?a" by simp
  obtain s2 where 3: "getObject tracker ''paper:42'' (fst created, snd created) = (Inr ?b, s2)"
    using getObject_created by (cases "getObject tracker ''paper:42'' created") simp
  have p: "uidPrefix (config (fst created)) = ''UID:''" by (simp add: created_eq)
  from C10_label_field [OF 1 2 3 refl] p have "label (meta ?a) \<noteq> label (meta ?b)" by simp
  with p show ?thesis by (simp add: listAll_created getObject_created)
qed
section \<open>Identity mismatch\<close>



lemma verifyIssueLabels_iff:
  "verifyIssueLabels cfg r e \<longleftrightarrow>
     baseLabel cfg \<in> set (labels r) \<or> uidPrefix cfg @ e \<in> set (labels r)"
  by (auto simp: verifyIssueLabels_def list_ex_iff)


lemma split_comma_plain: "CHR '','' \<notin> set ys \<Longrightarrow> split_comma ys = [ys]"
  by (induction ys) auto









section \<open>The client against the reference tracker\<close>

lemma tracked_clock [simp]:
  "tracked e n d k t c (w\<lparr>clock := t'\<rparr>) = tracked e n d k t c w"
  by (simp add: tracked_def gh_comments_of_def)

lemma map_unless_number:
  "list_all (\<lambda>i. number i \<noteq> n) rest \<Longrightarrow>
   map (\<lambda>i. if number i = n then f i else i) rest = rest"
  by (induction rest) auto

lemma find_unless_number:
  "list_all (\<lambda>i. number i \<noteq> n) rest \<Longrightarrow> find (\<lambda>i. number i = n) rest = None"
  by (induction rest) auto

lemma list_ex_unless_number:
  "list_all (\<lambda>i. number i \<noteq> n) rest \<Longrightarrow> \<not> list_ex (\<lambda>i. number i = n) rest"
  by (induction rest) auto

lemma cache_set_ttl [simp]: "ttl (cache_set now e n r c) = ttl c"
  by (simp add: cache_set_def evict_tail_def cache_remove_def Let_def)

lemma cache_set_entry:
  "map_of (cache_map (cache_set now e n r c)) e =
     Some \<lparr>entry_issueNumber = n, lastAccessed = now, entry_createdAt = fst r,
           entry_updatedAt = snd r\<rparr>"
  by (simp add: cache_set_def Let_def AList.update_conv')

lemma length_first_page: "length (first_page pg xs) = page_count pg (length xs)"
  by (cases pg) simp_all


text \<open>
  A read of a tracked object within \<open>ttl\<close> of the last access: the cache is hit, the issue
  passes the check, and the version is the number of comments on the first page plus one.
\<close>

lemma getObject_tracked_paged:
  assumes tr: "tracked e n d k t c w" and fresh: "clock w - t \<le> ttl (cache c)"
  shows "\<exists>obj c'. getObject (gh_paged pg fmt parse) e (c, w) = (Inr obj, c', w) \<and>
           version (meta obj) = page_count pg k + 1 \<and> data obj = d \<and>
           issueNumber (meta obj) = n \<and>
           objectId (meta obj) = e \<and> label (meta obj) = uidPrefix (config c) @ e \<and>
           tracked e n d k (clock w) c' w \<and>
           token c' = token c \<and> config c' = config c \<and> ttl (cache c') = ttl (cache c)"
proof -
  from tr obtain en where en: "map_of (cache_map (cache c)) e = Some en"
    "entry_issueNumber en = n" "lastAccessed en = t"
    by (auto simp: tracked_def split: option.splits)
  from tr obtain x rest where w: "issues w = x # rest" "number x = n"
    "body x = Some (JsonText d)" "baseLabel (config c) \<in> set (labels x)"
    "uidPrefix (config c) @ e \<in> set (labels x)" "list_all (\<lambda>i. number i \<noteq> n) rest"
    by (auto simp: tracked_def split: list.splits)
  from tr have n0: "n \<noteq> 0" and k: "length (gh_comments_of n w) = k"
    by (auto simp: tracked_def)
  let ?ch = "(cache c)\<lparr>cache_map := AList.update e (en\<lparr>lastAccessed := clock w\<rparr>) (cache_map (cache c)),
                        accessOrder := updateAccessOrder e (accessOrder (cache c))\<rparr>"
  have get: "cache_get (clock w) e (cache c) = (Some n, ?ch)"
    using en fresh by (simp add: cache_get_def)
  have ver: "verifyIssueLabels (config c) x e"
    using w(4) by (simp add: verifyIssueLabels_iff)
  have ci: "cached_issue (gh_paged pg fmt parse) e (c, w) = (Inr (Some x), c\<lparr>cache := ?ch\<rparr>, w)"
    using get n0 w(1,2) ver
    by (simp add: cached_issue_def fetchFromGitHub_def gh_paged_def gh_def gh_GET_issue_def)
  let ?dates = "(parse (created_at x), parse (updated_at x))"
  let ?c' = "c\<lparr>cache := cache_set (clock w) e n ?dates ?ch\<rparr>"
  let ?obj = "\<lparr>meta = \<lparr>objectId = e, label = uidPrefix (config c) @ e, issueNumber = n,
                        createdAt = parse (created_at x), updatedAt = parse (updated_at x),
                        version = page_count pg k + 1\<rparr>,
                data = d\<rparr>"
  have has: "gh_has_issue n w"
    using w(1,2) by (simp add: gh_has_issue_def)
  have as: "assemble (gh_paged pg fmt parse) e x (c\<lparr>cache := ?ch\<rparr>, w) = (Inr ?obj, ?c', w)"
    using w(2,3) has k
    by (simp add: assemble_def getVersion_def fetchFromGitHub_def await_def resolve_def
        gh_paged_def gh_def gh_GET_comments_paged_def length_first_page Let_def)
  have run: "getObject (gh_paged pg fmt parse) e (c, w) = (Inr ?obj, ?c', w)"
    using ci as by (simp add: getObject_def await_def resolve_def)
  have tr': "tracked e n d k (clock w) ?c' w"
    using n0 w k by (simp add: tracked_def cache_set_entry)
  have ttl': "ttl (cache ?c') = ttl (cache c)"
    by simp
  from run tr' ttl' show ?thesis
    by (intro exI [of _ ?obj] exI [of _ ?c']) simp
qed



lemma gh_wf_fresh:
  assumes "gh_wf w"
  shows "list_all (\<lambda>i. number i \<noteq> Suc (length (issues w))) (issues w)"
    and "gh_comments_of (Suc (length (issues w))) w = []"
  using assms
  by (auto simp: gh_wf_def gh_comments_of_def list_all_iff filter_empty_conv)

text \<open>
  \<^verbatim>\<open>createObject\<close> with a truthy token in a well-formed world succeeds, reports version 1,
  and leaves the object tracked, with one comment: the initial state.
\<close>

lemma createObject_tracked_paged:
  assumes tk: "truthy_token (token c)" and wf: "gh_wf w"
  shows "\<exists>obj c' w'. createObject (gh_paged pg fmt parse) e d extra (c, w) = (Inr obj, c', w') \<and>
           version (meta obj) = 1 \<and> data obj = d \<and>
           issueNumber (meta obj) = Suc (length (issues w)) \<and>
           tracked e (Suc (length (issues w))) d 1 (clock w) c' w' \<and>
           clock w' = clock w \<and>
           token c' = token c \<and> config c' = config c \<and> ttl (cache c') = ttl (cache c)"
proof -
  let ?n = "Suc (length (issues w))"
  let ?ts = "fmt (clock w)"
  let ?uid = "uidPrefix (config c) @ e"
  let ?a = "\<lparr>number = ?n, title = ''Stored Object: '' @ e, body = Some (JsonText d),
             labels = [''gh-store'', baseLabel (config c), ?uid] @ extra, state = ''open'',
             created_at = ?ts, updated_at = ?ts\<rparr>"
  let ?w1 = "w\<lparr>issues := ?a # issues w\<rparr>"
  let ?c1 = "c\<lparr>cache := cache_set (clock w) e ?n (parse ?ts, parse ?ts) (cache c)\<rparr>"
  let ?cm = "\<lparr>comment_id = Suc (length (comments w)),
              comment_body = JsonText (createCommentPayload (gh_paged pg fmt parse) ?w1 d ?n
                                         (Some ''initial_state'')),
              comment_created_at = ?ts\<rparr>"
  let ?x = "?a\<lparr>state := ''closed''\<rparr>"
  let ?w' = "w\<lparr>issues := ?x # issues w, comments := comments w @ [(?n, ?cm)],
               reactions := reactions w @ [(comment_id ?cm, reaction_processed (config c)),
                                           (comment_id ?cm, reaction_initialState (config c))]\<rparr>"
  let ?obj = "\<lparr>meta = \<lparr>objectId = e, label = ?uid, issueNumber = ?n,
                        createdAt = parse ?ts, updatedAt = parse ?ts, version = 1\<rparr>,
                data = d\<rparr>"
  note fresh = gh_wf_fresh [OF wf]
  have run: "createObject (gh_paged pg fmt parse) e d extra (c, w) = (Inr ?obj, ?c1, ?w')"
    using tk fresh(1)
    by (simp add: createObject_def fetchFromGitHub_def await_def resolve_def JSON_stringify_def
        createCommentPayload_def gh_paged_def
        gh_def gh_POST_issue_def gh_POST_comment_def gh_POST_reaction_def gh_PATCH_issue_def
        gh_has_issue_def Let_def map_unless_number)
  have cnt: "gh_comments_of ?n ?w' = [?cm]"
    using fresh(2) by (simp add: gh_comments_of_def)
  have tr: "tracked e ?n d 1 (clock w) ?c1 ?w'"
    using fresh(1) cnt by (simp add: tracked_def cache_set_entry)
  from run tr show ?thesis
    by (intro exI [of _ ?obj] exI [of _ ?c1] exI [of _ ?w']) simp
qed



lemma split_comma_cons:
  "CHR '','' \<notin> set a \<Longrightarrow> split_comma (a @ CHR '','' # ys) = a # split_comma ys"
  by (induction a) auto

lemma split_join_two:
  "CHR '','' \<notin> set a \<Longrightarrow> CHR '','' \<notin> set b \<Longrightarrow> split_comma (join_comma [a, b]) = [a, b]"
  by (simp add: split_comma_cons split_comma_plain)

lemma first_page_Cons:
  "pg \<noteq> Some 0 \<Longrightarrow> \<exists>rs. first_page pg (x # xs) = x # rs"
  by (cases pg) (auto simp: take_Cons split: nat.splits)

text \<open>
  The label query of \<^verbatim>\<open>updateObject\<close> and \<^verbatim>\<open>getObjectHistory\<close> finds a tracked object
  first, when its two labels have no comma and a page has room for an issue.
\<close>

lemma label_query_tracked:
  assumes tr: "tracked e n d k t c w"
    and nc: "CHR '','' \<notin> set (baseLabel (config c))" "CHR '','' \<notin> set (uidPrefix (config c) @ e)"
    and pg: "pg \<noteq> Some 0"
  shows "\<exists>x rest rs. issues w = x # rest \<and> number x = n \<and>
           GET_issues (gh_paged pg fmt parse) a
             \<lparr>q_labels = join_comma [baseLabel (config c), uidPrefix (config c) @ e],
              q_state = ''all'', q_since = None\<rparr> w = (Inr (x # rs), w)"
proof -
  from tr obtain x rest where w: "issues w = x # rest" "number x = n"
    "baseLabel (config c) \<in> set (labels x)" "uidPrefix (config c) @ e \<in> set (labels x)"
    by (auto simp: tracked_def split: list.splits)
  have "gh_matches parse
          \<lparr>q_labels = join_comma [baseLabel (config c), uidPrefix (config c) @ e],
           q_state = ''all'', q_since = None\<rparr> x"
    using w(3,4) split_join_two [OF nc] by (simp add: gh_matches_def)
  with w(1,2) first_page_Cons [OF pg, of x] show ?thesis
    by (simp add: gh_paged_def gh_def gh_GET_issues_paged_def)
qed

text \<open>
  \<^verbatim>\<open>updateObject\<close> of a tracked object within \<open>ttl\<close> of the last access: one more comment,
  and the object that the closing \<^verbatim>\<open>getObject\<close> returns has the body of the issue as its
  data and, as its version, the number of comments on the first page plus one.
\<close>

lemma updateObject_tracked:
  assumes tr: "tracked e n d0 k t c w" and tk: "truthy_token (token c)"
    and nc: "CHR '','' \<notin> set (baseLabel (config c))" "CHR '','' \<notin> set (uidPrefix (config c) @ e)"
    and fresh: "clock w - t \<le> ttl (cache c)" and pg: "pg \<noteq> Some 0"
  shows "\<exists>obj c' w'. updateObject (gh_paged pg fmt parse) e d (c, w) = (Inr obj, c', w') \<and>
           version (meta obj) = page_count pg (Suc k) + 1 \<and> data obj = d0 \<and>
           tracked e n d0 (Suc k) (clock w) c' w' \<and> clock w' = clock w \<and>
           token c' = token c \<and> config c' = config c \<and> ttl (cache c') = ttl (cache c)"
proof -
  let ?P = "gh_paged pg fmt parse"
  from label_query_tracked [OF tr nc pg, of fmt parse "authorization (token c)"]
  obtain x rest rs where w: "issues w = x # rest" "number x = n"
    and q: "GET_issues ?P (authorization (token c))
             \<lparr>q_labels = join_comma [baseLabel (config c), uidPrefix (config c) @ e],
              q_state = ''all'', q_since = None\<rparr> w = (Inr (x # rs), w)"
    by blast
  from tr w have x: "body x = Some (JsonText d0)" "baseLabel (config c) \<in> set (labels x)"
    "uidPrefix (config c) @ e \<in> set (labels x)" "list_all (\<lambda>i. number i \<noteq> n) rest"
    and n0: "n \<noteq> 0" and k: "length (gh_comments_of n w) = k"
    by (auto simp: tracked_def)
  let ?cm = "\<lparr>comment_id = Suc (length (comments w)),
              comment_body = JsonText (createCommentPayload ?P w d n None),
              comment_created_at = fmt (clock w)\<rparr>"
  let ?x' = "x\<lparr>state := ''open'', updated_at := fmt (clock w)\<rparr>"
  let ?w2 = "w\<lparr>comments := comments w @ [(n, ?cm)], issues := ?x' # rest\<rparr>"
  have step: "updateObject ?P e d (c, w) = getObject ?P e (c, ?w2)"
    using tk q w x(4)
    by (simp add: updateObject_def fetchFromGitHub_def await_def JSON_stringify_def
        createCommentPayload_def gh_paged_def
        gh_def gh_POST_comment_def gh_PATCH_issue_def gh_has_issue_def Let_def
        map_unless_number)
  have cnt: "length (gh_comments_of n ?w2) = Suc k"
    using k by (simp add: gh_comments_of_def)
  have tr2: "tracked e n d0 (Suc k) t c ?w2"
    using tr w x n0 cnt by (simp add: tracked_def)
  have fresh2: "clock ?w2 - t \<le> ttl (cache c)"
    using fresh by simp
  from getObject_tracked_paged [OF tr2 fresh2, of pg fmt parse] step show ?thesis
    by auto
qed

section \<open>Read after create\<close>


lemma createObject_paper:
  "createObject tracker ''paper:42'' paper_data [] (paper_client, gh_empty instant) =
     (Inr \<lparr>meta = \<lparr>objectId = ''paper:42'', label = ''UID:paper:42'', issueNumber = 1,
                   createdAt = Date 1704067200000, updatedAt = Date 1704067200000,
                   version = 1\<rparr>,
           data = JObj [(''title'', JStr ''X'')]\<rparr>,
      created)"
  unfolding created_eq
  by (simp add: client_defs cache_defs gh_defs fixture_defs)


lemma gh_wf_empty: "gh_wf (gh_empty t)"
  by (simp add: gh_wf_def gh_empty_def)

lemma paper_client_simps:
  "token paper_client = TokenString ''secret''"
  "baseLabel (config paper_client) = ''stored-object''"
  "uidPrefix (config paper_client) = ''UID:''"
  "ttl (cache paper_client) = 3600000"
  by (simp_all add: fixture_defs cache_new_def)


section \<open>Versions of repeated updates\<close>

lemma update_versions_tracked:
  assumes "tracked e n d0 k t c w" and "truthy_token (token c)"
    and "CHR '','' \<notin> set (baseLabel (config c))"
    and "CHR '','' \<notin> set (uidPrefix (config c) @ e)"
    and "within_ttl (ttl (cache c)) t (map fst tds)"
    and "pg \<noteq> Some 0"
  shows "update_versions (gh_paged pg fmt parse) e tds (c, w) =
           Inr (map (\<lambda>i. page_count pg (Suc k + i) + 1) [0 ..< length tds])"
  using assms
proof (induction tds arbitrary: k t c w)
  case Nil
  then show ?case by simp
next
  case (Cons td tds)
  obtain t1 d1 where td: "td = (t1, d1)" by (cases td)
  from Cons.prems(1) have tr: "tracked e n d0 k t c (w\<lparr>clock := t1\<rparr>)" by simp
  from Cons.prems(5) td have fresh: "clock (w\<lparr>clock := t1\<rparr>) - t \<le> ttl (cache c)"
    and rest: "within_ttl (ttl (cache c)) t1 (map fst tds)"
    by simp_all
  from updateObject_tracked [OF tr Cons.prems(2,3,4) fresh Cons.prems(6), of fmt parse d1]
  obtain obj c' w' where u:
    "updateObject (gh_paged pg fmt parse) e d1 (c, w\<lparr>clock := t1\<rparr>) = (Inr obj, c', w')"
    "version (meta obj) = page_count pg (Suc k) + 1" "tracked e n d0 (Suc k) t1 c' w'"
    "token c' = token c" "config c' = config c" "ttl (cache c') = ttl (cache c)"
    by auto
  from Cons.IH [OF u(3)] Cons.prems(2,3,4,6) rest u(4,5,6)
  have "update_versions (gh_paged pg fmt parse) e tds (c', w') =
          Inr (map (\<lambda>i. page_count pg (Suc (Suc k) + i) + 1) [0 ..< length tds])"
    by simp
  with u(1,2) td
  have "update_versions (gh_paged pg fmt parse) e (td # tds) (c, w) =
          Inr ((page_count pg (Suc k) + 1) #
               map (\<lambda>i. page_count pg (Suc (Suc k) + i) + 1) [0 ..< length tds])"
    by simp
  also have "(page_count pg (Suc k) + 1) #
               map (\<lambda>i. page_count pg (Suc (Suc k) + i) + 1) [0 ..< length tds]
             = map (\<lambda>i. page_count pg (Suc k + i) + 1) [0 ..< length (td # tds)]"
    using map_upt_Suc [of "\<lambda>i. page_count pg (Suc k + i) + 1" "length tds"] by simp
  finally show ?case .
qed

text \<open>As long as the comments fit on the page, the versions go up by one.\<close>

lemma versions_on_one_page:
  assumes "page_count pg (n + 1) = n + 1"
  shows "map (\<lambda>i. page_count pg (i + 2) + 1) [0 ..< n] = [3 ..< 3 + n]"
proof -
  have "page_count pg (i + 2) + 1 = i + 3" if "i < n" for i
    using assms that by (cases pg) (auto simp: min_def)
  then have "map (\<lambda>i. page_count pg (i + 2) + 1) [0 ..< n] = map (\<lambda>i. i + 3) [0 ..< n]"
    by simp
  also have "\<dots> = [3 ..< 3 + n]"
    using map_add_upt [of 3 n] by (simp add: add.commute)
  finally show ?thesis .
qed

text \<open>
  \<^verbatim>\<open>createObject\<close> asks for no list, so a page limit makes no difference to it.
\<close>

lemma createObject_paged:
  "createObject (gh_paged pg fmt parse) e d extra s = createObject (gh fmt parse) e d extra s"
  by (simp add: createObject_def createCommentPayload_def gh_paged_def)

text \<open>
  C4, amended: against the reference tracker that answers a list request with one page of
  at most \<open>p\<close> items (\<open>p\<close> at least 1, or no limit), after \<^verbatim>\<open>createObject\<close> the successive
  calls of \<^verbatim>\<open>updateObject\<close> for the same ID, each made within \<open>ttl\<close> of the call before,
  return versions that depend on the number of the call only, whatever the data: the
  \<open>i\<close>-th call (counted from 0) returns the number of comments on the first page, which is
  the smaller of \<open>i + 2\<close> and \<open>p\<close>, plus one. So the versions are 3, 4, 5, ... with no gaps
  for as long as the comments of the issue fit on one page (the initial state and the first
  update being two comments), and stay at \<open>p + 1\<close> from then on. The labels of the object
  have no comma, and the world is well formed.
\<close>

theorem C4_update_versions:
  assumes "truthy_token (token c)" and "gh_wf w"
    and "CHR '','' \<notin> set (baseLabel (config c))"
    and "CHR '','' \<notin> set (uidPrefix (config c) @ e)"
    and "within_ttl (ttl (cache c)) (clock w) (map fst tds)"
    and "pg \<noteq> Some 0"
  shows "\<exists>obj0 s. createObject (gh_paged pg fmt parse) e d extra (c, w) = (Inr obj0, s) \<and>
           update_versions (gh_paged pg fmt parse) e tds s =
             Inr (map (\<lambda>i. page_count pg (i + 2) + 1) [0 ..< length tds]) \<and>
           (page_count pg (length tds + 1) = length tds + 1 \<longrightarrow>
              update_versions (gh_paged pg fmt parse) e tds s = Inr [3 ..< 3 + length tds])"
proof -
  from createObject_tracked_paged [OF assms(1,2), of pg fmt parse e d extra]
  obtain obj0 c1 w1 where c:
    "createObject (gh_paged pg fmt parse) e d extra (c, w) = (Inr obj0, c1, w1)"
    "tracked e (Suc (length (issues w))) d 1 (clock w) c1 w1"
    "token c1 = token c" "config c1 = config c" "ttl (cache c1) = ttl (cache c)"
    by auto
  from update_versions_tracked [OF c(2), of tds pg fmt parse] assms c(3,4,5)
  have "update_versions (gh_paged pg fmt parse) e tds (c1, w1) =
          Inr (map (\<lambda>i. page_count pg (Suc 1 + i) + 1) [0 ..< length tds])"
    by simp
  then have v: "update_versions (gh_paged pg fmt parse) e tds (c1, w1) =
          Inr (map (\<lambda>i. page_count pg (i + 2) + 1) [0 ..< length tds])"
    by (simp add: add.commute)
  with versions_on_one_page [of pg "length tds"]
  have "page_count pg (length tds + 1) = length tds + 1 \<longrightarrow>
          update_versions (gh_paged pg fmt parse) e tds (c1, w1) = Inr [3 ..< 3 + length tds]"
    by simp
  with c(1) v show ?thesis
    by (intro exI [of _ obj0] exI [of _ "(c1, w1)"]) simp
qed

lemma updated_once_eq:
  "updated_once =
     (\<lparr>token = TokenString ''secret'', repo = ''owner/repo'',
       config = \<lparr>baseLabel = ''stored-object'', uidPrefix = ''UID:'',
                  reaction_processed = ''+1'', reaction_initialState = ''rocket''\<rparr>,
       cache = \<lparr>cache_map =
                  [(''paper:42'',
                    \<lparr>entry_issueNumber = 1, lastAccessed = 1704067200000,
                     entry_createdAt = Date 1704067200000,
                     entry_updatedAt = Date 1704067200000\<rparr>)],
                maxSize = 1000, ttl = 3600000, accessOrder = [''paper:42'']\<rparr>\<rparr>,
      \<lparr>clock = 1704067200000,
       issues =
         [\<lparr>number = 1, title = ''Stored Object: paper:42'',
           body = Some (JsonText (JObj [(''title'', JStr ''X'')])),
           labels = [''gh-store'', ''stored-object'', ''UID:paper:42''],
           state = ''open'', created_at = ''2024-01-01T00:00:00.000Z'',
           updated_at = ''2024-01-01T00:00:00.000Z''\<rparr>],
       comments =
         [(1, \<lparr>comment_id = 1,
               comment_body =
                 JsonText
                   (JObj
                     [(''_data'', JObj [(''title'', JStr ''X'')]),
                      (''_meta'',
                       JObj
                         [(''client_version'', JStr ''0.11.1''),
                          (''timestamp'', JStr ''2024-01-01T00:00:00.000Z''),
                          (''update_mode'', JStr ''append''),
                          (''issue_number'', JNum 1)]),
                      (''type'', JStr ''initial_state'')]),
               comment_created_at = ''2024-01-01T00:00:00.000Z''\<rparr>),
          (1, \<lparr>comment_id = 2,
               comment_body =
                 JsonText
                   (JObj
                     [(''_data'', JObj [(''title'', JStr ''X''), (''rating'', JStr ''up'')]),
                      (''_meta'',
                       JObj
                         [(''client_version'', JStr ''0.11.1''),
                          (''timestamp'', JStr ''2024-01-01T00:00:00.000Z''),
                          (''update_mode'', JStr ''append''),
                          (''issue_number'', JNum 1)])]),
               comment_created_at = ''2024-01-01T00:00:00.000Z''\<rparr>)],
       reactions = [(1, ''+1''), (1, ''rocket'')]\<rparr>)"
  unfolding updated_once_def created_eq
  by (simp add: paper_up_def client_defs cache_defs gh_defs fixture_defs)

lemma updateObject_once:
  "updateObject tracker ''paper:42'' paper_up created =
     (Inr \<lparr>meta = \<lparr>objectId = ''paper:42'', label = ''UID:paper:42'', issueNumber = 1,
                   createdAt = Date 1704067200000, updatedAt = Date 1704067200000,
                   version = 3\<rparr>,
           data = JObj [(''title'', JStr ''X'')]\<rparr>,
      updated_once)"
proof (rule prod_eqI)
  show "fst (updateObject tracker ''paper:42'' paper_up created) =
          fst (Inr \<lparr>meta = \<lparr>objectId = ''paper:42'', label = ''UID:paper:42'', issueNumber = 1,
                   createdAt = Date 1704067200000, updatedAt = Date 1704067200000,
                   version = 3\<rparr>,
           data = JObj [(''title'', JStr ''X'')]\<rparr>,
               updated_once)"
    unfolding created_eq
    by (simp add: paper_up_def client_defs cache_defs gh_defs fixture_defs)
  show "snd (updateObject tracker ''paper:42'' paper_up created) =
          snd (Inr \<lparr>meta = \<lparr>objectId = ''paper:42'', label = ''UID:paper:42'', issueNumber = 1,
                   createdAt = Date 1704067200000, updatedAt = Date 1704067200000,
                   version = 3\<rparr>,
           data = JObj [(''title'', JStr ''X'')]\<rparr>,
               updated_once)"
    by (simp add: updated_once_def)
qed

lemma updated_twice_eq:
  "updated_twice =
     (\<lparr>token = TokenString ''secret'', repo = ''owner/repo'',
       config = \<lparr>baseLabel = ''stored-object'', uidPrefix = ''UID:'',
                  reaction_processed = ''+1'', reaction_initialState = ''rocket''\<rparr>,
       cache = \<lparr>cache_map =
                  [(''paper:42'',
                    \<lparr>entry_issueNumber = 1, lastAccessed = 1704067200000,
                     entry_createdAt = Date 1704067200000,
                     entry_updatedAt = Date 1704067200000\<rparr>)],
                maxSize = 1000, ttl = 3600000, accessOrder = [''paper:42'']\<rparr>\<rparr>,
      \<lparr>clock = 1704067200000,
       issues =
         [\<lparr>number = 1, title = ''Stored Object: paper:42'',
           body = Some (JsonText (JObj [(''title'', JStr ''X'')])),
           labels = [''gh-store'', ''stored-object'', ''UID:paper:42''],
           state = ''open'', created_at = ''2024-01-01T00:00:00.000Z'',
           updated_at = ''2024-01-01T00:00:00.000Z''\<rparr>],
       comments =
         [(1, \<lparr>comment_id = 1,
               comment_body =
                 JsonText
                   (JObj
                     [(''_data'', JObj [(''title'', JStr ''X'')]),
                      (''_meta'',
                       JObj
                         [(''client_version'', JStr ''0.11.1''),
                          (''timestamp'', JStr ''2024-01-01T00:00:00.000Z''),
                          (''update_mode'', JStr ''append''),
                          (''issue_number'', JNum 1)]),
                      (''type'', JStr ''initial_state'')]),
               comment_created_at = ''2024-01-01T00:00:00.000Z''\<rparr>),
          (1, \<lparr>comment_id = 2,
               comment_body =
                 JsonText
                   (JObj
                     [(''_data'', JObj [(''title'', JStr ''X''), (''rating'', JStr ''up'')]),
                      (''_meta'',
                       JObj
                         [(''client_version'', JStr ''0.11.1''),
                          (''timestamp'', JStr ''2024-01-01T00:00:00.000Z''),
                          (''update_mode'', JStr ''append''),
                          (''issue_number'', JNum 1)])]),
               comment_created_at = ''2024-01-01T00:00:00.000Z''\<rparr>),
          (1, \<lparr>comment_id = 3,
               comment_body =
                 JsonText
                   (JObj
                     [(''_data'', JObj [(''title'', JStr ''X''), (''rating'', JStr ''down'')]),
                      (''_meta'',
                       JObj
                         [(''client_version'', JStr ''0.11.1''),
                          (''timestamp'', JStr ''2024-01-01T00:00:00.000Z''),
                          (''update_mode'', JStr ''append''),
                          (''issue_number'', JNum 1)])]),
               comment_created_at = ''2024-01-01T00:00:00.000Z''\<rparr>)],
       reactions = [(1, ''+1''), (1, ''rocket'')]\<rparr>)"
  unfolding updated_twice_def updated_once_eq
  by (simp add: paper_down_def client_defs cache_defs gh_defs fixture_defs)

lemma updateObject_twice:
  "updateObject tracker ''paper:42'' paper_down updated_once =
     (Inr \<lparr>meta = \<lparr>objectId = ''paper:42'', label = ''UID:paper:42'', issueNumber = 1,
                   createdAt = Date 1704067200000, updatedAt = Date 1704067200000,
                   version = 4\<rparr>,
           data = JObj [(''title'', JStr ''X'')]\<rparr>,
      updated_twice)"
proof (rule prod_eqI)
  show "fst (updateObject tracker ''paper:42'' paper_down updated_once) =
          fst (Inr \<lparr>meta = \<lparr>objectId = ''paper:42'', label = ''UID:paper:42'', issueNumber = 1,
                   createdAt = Date 1704067200000, updatedAt = Date 1704067200000,
                   version = 4\<rparr>,
           data = JObj [(''title'', JStr ''X'')]\<rparr>,
               updated_twice)"
    unfolding updated_once_eq
    by (simp add: paper_down_def client_defs cache_defs gh_defs fixture_defs)
  show "snd (updateObject tracker ''paper:42'' paper_down updated_once) =
          snd (Inr \<lparr>meta = \<lparr>objectId = ''paper:42'', label = ''UID:paper:42'', issueNumber = 1,
                   createdAt = Date 1704067200000, updatedAt = Date 1704067200000,
                   version = 4\<rparr>,
           data = JObj [(''title'', JStr ''X'')]\<rparr>,
               updated_twice)"
    by (simp add: updated_twice_def)
qed

text \<open>
  The claim as it is written fails: two calls of \<^verbatim>\<open>updateObject\<close> after
  \<^verbatim>\<open>createObject\<close>, which reports version 1, report the versions 3 and 4.
\<close>

theorem C4_versions_counterexample:
  "fst (createObject tracker ''paper:42'' paper_data [] (paper_client, gh_empty instant)) =
     Inr \<lparr>meta = \<lparr>objectId = ''paper:42'', label = ''UID:paper:42'', issueNumber = 1,
                  createdAt = Date 1704067200000, updatedAt = Date 1704067200000,
                  version = 1\<rparr>,
          data = JObj [(''title'', JStr ''X'')]\<rparr> \<and>
   snd (createObject tracker ''paper:42'' paper_data [] (paper_client, gh_empty instant)) = created \<and>
   fst (updateObject tracker ''paper:42'' paper_up created) =
     Inr \<lparr>meta = \<lparr>objectId = ''paper:42'', label = ''UID:paper:42'', issueNumber = 1,
                  createdAt = Date 1704067200000, updatedAt = Date 1704067200000,
                  version = 3\<rparr>,
          data = JObj [(''title'', JStr ''X'')]\<rparr> \<and>
   snd (updateObject tracker ''paper:42'' paper_up created) = updated_once \<and>
   fst (updateObject tracker ''paper:42'' paper_down updated_once) =
     Inr \<lparr>meta = \<lparr>objectId = ''paper:42'', label = ''UID:paper:42'', issueNumber = 1,
                  createdAt = Date 1704067200000, updatedAt = Date 1704067200000,
                  version = 4\<rparr>,
          data = JObj [(''title'', JStr ''X'')]\<rparr> \<and>
   [3, 4] \<noteq> [1, 2 :: nat] \<and> [3, 4] \<noteq> [2, 3 :: nat] \<and> [1, 3, 4] \<noteq> [1, 2, 3 :: nat]"
  by (simp add: createObject_paper updateObject_once updateObject_twice)

theorem C4_update_versions_witness:
  "truthy_token (token paper_client) \<and> gh_wf (gh_empty instant) \<and>
   CHR '','' \<notin> set (baseLabel (config paper_client)) \<and>
   CHR '','' \<notin> set (uidPrefix (config paper_client) @ ''paper:42'') \<and>
   within_ttl (ttl (cache paper_client)) (clock (gh_empty instant))
     (map fst [(instant, paper_up), (instant, paper_down), (instant, paper_up)]) \<and>
   Some (30 :: nat) \<noteq> Some 0 \<and> Some (2 :: nat) \<noteq> Some 0 \<and>
   snd (createObject (gh_paged (Some 30) fmt_instant parse_instant) ''paper:42'' paper_data []
          (paper_client, gh_empty instant)) = created \<and>
   snd (createObject (gh_paged (Some 2) fmt_instant parse_instant) ''paper:42'' paper_data []
          (paper_client, gh_empty instant)) = created \<and>
   page_count (Some 30) (length [(instant, paper_up), (instant, paper_down), (instant, paper_up)] + 1)
     = length [(instant, paper_up), (instant, paper_down), (instant, paper_up)] + 1 \<and>
   update_versions (gh_paged (Some 30) fmt_instant parse_instant) ''paper:42''
     [(instant, paper_up), (instant, paper_down), (instant, paper_up)] created = Inr [3, 4, 5] \<and>
   update_versions (gh_paged (Some 2) fmt_instant parse_instant) ''paper:42''
     [(instant, paper_up), (instant, paper_down), (instant, paper_up)] created = Inr [3, 3, 3]"
proof -
  let ?tds = "[(instant, paper_up), (instant, paper_down), (instant, paper_up)]"
  have tk: "truthy_token (token paper_client)"
    and nb: "CHR '','' \<notin> set (baseLabel (config paper_client))"
    and nu: "CHR '','' \<notin> set (uidPrefix (config paper_client) @ ''paper:42'')"
    and tt: "within_ttl (ttl (cache paper_client)) (clock (gh_empty instant)) (map fst ?tds)"
    by (simp_all add: paper_client_simps gh_empty_def)
  have p30: "Some (30 :: nat) \<noteq> Some 0" and p2: "Some (2 :: nat) \<noteq> Some 0"
    by simp_all
  have cr: "snd (createObject (gh_paged pg fmt_instant parse_instant) ''paper:42'' paper_data []
                   (paper_client, gh_empty instant)) = created" for pg
    using createObject_paper by (simp add: createObject_paged tracker_def)
  have fits: "page_count (Some 30) (length ?tds + 1) = length ?tds + 1"
    by simp
  have e30: "[3 ..< 3 + length ?tds] = [3, 4, 5]"
    by (simp add: upt_conv_Cons)
  have e2: "map (\<lambda>i. page_count (Some 2) (i + 2) + 1) [0 ..< length ?tds] = [3, 3, 3]"
    by (simp add: upt_conv_Cons)
  from C4_update_versions [OF tk gh_wf_empty nb nu tt p30, of fmt_instant parse_instant
      paper_data "[]"]
  obtain obj30 s30 where
    c30: "createObject (gh_paged (Some 30) fmt_instant parse_instant) ''paper:42'' paper_data []
            (paper_client, gh_empty instant) = (Inr obj30, s30)"
    and f30: "page_count (Some 30) (length ?tds + 1) = length ?tds + 1 \<longrightarrow>
              update_versions (gh_paged (Some 30) fmt_instant parse_instant) ''paper:42'' ?tds s30
                = Inr [3 ..< 3 + length ?tds]"
    by blast
  from c30 cr [of "Some 30"] have "s30 = created" by simp
  with f30 fits
  have u30: "update_versions (gh_paged (Some 30) fmt_instant parse_instant) ''paper:42'' ?tds created
          = Inr [3 ..< 3 + length ?tds]"
    by blast
  have v30:
    "update_versions (gh_paged (Some 30) fmt_instant parse_instant) ''paper:42'' ?tds created
       = Inr [3, 4, 5]"
    unfolding e30 [symmetric] by (rule u30)
  from C4_update_versions [OF tk gh_wf_empty nb nu tt p2, of fmt_instant parse_instant
      paper_data "[]"]
  obtain obj2 s2 where
    c2: "createObject (gh_paged (Some 2) fmt_instant parse_instant) ''paper:42'' paper_data []
            (paper_client, gh_empty instant) = (Inr obj2, s2)"
    and f2: "update_versions (gh_paged (Some 2) fmt_instant parse_instant) ''paper:42'' ?tds s2
                = Inr (map (\<lambda>i. page_count (Some 2) (i + 2) + 1) [0 ..< length ?tds])"
    by blast
  from c2 cr [of "Some 2"] have "s2 = created" by simp
  with f2
  have u2: "update_versions (gh_paged (Some 2) fmt_instant parse_instant) ''paper:42'' ?tds created
          = Inr (map (\<lambda>i. page_count (Some 2) (i + 2) + 1) [0 ..< length ?tds])"
    by blast
  have v2:
    "update_versions (gh_paged (Some 2) fmt_instant parse_instant) ''paper:42'' ?tds created
       = Inr [3, 3, 3]"
    unfolding e2 [symmetric] by (rule u2)
  show ?thesis
    by (intro conjI) (rule tk gh_wf_empty nb nu tt p30 p2 cr fits v30 v2)+
qed

section \<open>The scenario\<close>

text \<open>
  C2, amended: after \<^verbatim>\<open>createObject("paper:42", {title:"X"})\<close> and the two calls of
  \<^verbatim>\<open>updateObject\<close>, the history has three entries, of the types \<^verbatim>\<open>"initial_state"\<close>,
  \<^verbatim>\<open>"update"\<close> and \<^verbatim>\<open>"update"\<close>, whose data are the three payloads; \<^verbatim>\<open>getObject\<close> returns
  the data written at creation, \<^verbatim>\<open>{title:"X"}\<close>, with version 4: the client writes the body
  of the issue once, and the updates are comments.
\<close>

theorem C2_scenario:
  "fst (getObjectHistory tracker ''paper:42'' updated_twice) =
     Inr [\<lparr>entry_timestamp = ''2024-01-01T00:00:00.000Z'', entry_type = JStr ''initial_state'',
           entry_data = Some (JObj [(''title'', JStr ''X'')]), commentId = 1\<rparr>,
          \<lparr>entry_timestamp = ''2024-01-01T00:00:00.000Z'', entry_type = JStr ''update'',
           entry_data = Some (JObj [(''title'', JStr ''X''), (''rating'', JStr ''up'')]),
           commentId = 2\<rparr>,
          \<lparr>entry_timestamp = ''2024-01-01T00:00:00.000Z'', entry_type = JStr ''update'',
           entry_data = Some (JObj [(''title'', JStr ''X''), (''rating'', JStr ''down'')]),
           commentId = 3\<rparr>] \<and>
   fst (getObject tracker ''paper:42'' updated_twice) =
     Inr \<lparr>meta = \<lparr>objectId = ''paper:42'', label = ''UID:paper:42'', issueNumber = 1,
                  createdAt = Date 1704067200000, updatedAt = Date 1704067200000,
                  version = 4\<rparr>,
          data = JObj [(''title'', JStr ''X'')]\<rparr>"
  unfolding updated_twice_eq
  by (simp add: client_defs cache_defs gh_defs fixture_defs)

text \<open>
  The claim as it is written fails: the data of the final \<^verbatim>\<open>getObject\<close> is not the payload
  of the last update.
\<close>

theorem C2_final_data_counterexample:
  "fst (getObject tracker ''paper:42'' updated_twice) =
     Inr \<lparr>meta = \<lparr>objectId = ''paper:42'', label = ''UID:paper:42'', issueNumber = 1,
                  createdAt = Date 1704067200000, updatedAt = Date 1704067200000,
                  version = 4\<rparr>,
          data = JObj [(''title'', JStr ''X'')]\<rparr> \<and>
   JObj [(''title'', JStr ''X'')] \<noteq> paper_down"
  unfolding updated_twice_eq
  by (simp add: paper_down_def client_defs cache_defs gh_defs fixture_defs)

end
